theory Spec2Isabelle
  imports Main "HOL-Library.Word"
begin

unbundle bit_operations_syntax

section \<open>Values (the macros at the top of vm.c)\<close>

text \<open>
  A \<open>Value\<close> is a \<open>uint64_t\<close>. A C \<open>double\<close> is kept as its IEEE-754 bit pattern,
  so \<open>VALUE_NUMBER\<close> and \<open>VALUE_AS_NUMBER\<close> (a union read of the other member) are the
  identity on the 64 bits. Pointers (\<open>Inst*\<close>, \<open>Value*\<close>, \<open>HeapObject*\<close>) are 64-bit
  addresses; \<open>Inst\<close> is a byte (\<open>jumpTable[*pc]\<close>, \<open>(int8_t)pc[1]\<close> and the
  little-endian \<open>READ_U16\<close> read it as an unsigned byte; its typedef is in vm.h).
\<close>

type_synonym Value = "64 word"
type_synonym f64 = "64 word"
type_synonym addr = "64 word"
type_synonym Inst = "8 word"
type_synonym TypeId = "32 word"

definition SIGN_MASK :: Value where
  "SIGN_MASK = push_bit 63 1"

definition TAGGED_VALUE_MASK :: Value where
  "TAGGED_VALUE_MASK = 0x7ffc000000000000"

definition TAG_MASK :: "32 word" where
  "TAG_MASK = push_bit 3 1 - 1"

definition TAGGED_PRIMITIVE_MASK :: Value where
  "TAGGED_PRIMITIVE_MASK = TAGGED_VALUE_MASK OR push_bit 32 (ucast TAG_MASK)"

definition TAG_NONE :: "8 word" where
  "TAG_NONE = 0"

definition TAG_BOOLEAN :: "8 word" where
  "TAG_BOOLEAN = 1"

definition TAG_ERROR :: "8 word" where
  "TAG_ERROR = 2"

definition TAG_INTEGER :: "8 word" where
  "TAG_INTEGER = 7"

definition INTEGER_MASK :: Value where
  "INTEGER_MASK = TAGGED_VALUE_MASK OR push_bit 32 (ucast TAG_INTEGER)"

definition BOOLEAN_MASK :: Value where
  "BOOLEAN_MASK = TAGGED_VALUE_MASK OR push_bit 32 (ucast TAG_BOOLEAN)"

definition FALSE_MASK :: Value where
  "FALSE_MASK = BOOLEAN_MASK"

definition TRUE_BIT_MASK :: Value where
  "TRUE_BIT_MASK = 1"

definition TRUE_MASK :: Value where
  "TRUE_MASK = BOOLEAN_MASK OR TRUE_BIT_MASK"

definition NONE_MASK :: Value where
  "NONE_MASK = TAGGED_VALUE_MASK OR push_bit 32 (ucast TAG_NONE)"

definition POINTER_MASK :: Value where
  "POINTER_MASK = TAGGED_VALUE_MASK OR SIGN_MASK"

text \<open>
  \<open>#define VALUE_INTEGER(n) (INTEGER_MASK | n)\<close>. At both call sites (\<open>ConstI8Int\<close>,
  \<open>AddInt\<close>/\<open>SubInt\<close>) the argument is an \<open>int32_t\<close>/\<open>int\<close>; the usual arithmetic
  conversions take it to \<open>uint64_t\<close> by sign extension before the bitwise or.
\<close>

definition VALUE_INTEGER :: "32 word \<Rightarrow> Value" where
  "VALUE_INTEGER n = INTEGER_MASK OR scast n"

definition VALUE_BOOLEAN :: "bool \<Rightarrow> Value" where
  "VALUE_BOOLEAN b = (if b then TRUE_MASK else FALSE_MASK)"

definition VALUE_NONE :: Value where
  "VALUE_NONE = NONE_MASK"

definition VALUE_NUMBER :: "f64 \<Rightarrow> Value" where
  "VALUE_NUMBER n = n"

definition VALUE_TRUE :: Value where
  "VALUE_TRUE = TRUE_MASK"

definition VALUE_FALSE :: Value where
  "VALUE_FALSE = FALSE_MASK"

definition VALUE_RAW :: "64 word \<Rightarrow> Value" where
  "VALUE_RAW u = u"

definition VALUE_AS_HEAPOBJECT :: "Value \<Rightarrow> addr" where
  "VALUE_AS_HEAPOBJECT v = v AND NOT POINTER_MASK"

definition VALUE_AS_INTEGER :: "Value \<Rightarrow> 32 word" where
  "VALUE_AS_INTEGER v = ucast (v AND 0xffffffff)"

definition VALUE_AS_NUMBER :: "Value \<Rightarrow> f64" where
  "VALUE_AS_NUMBER v = v"

definition VALUE_AS_BOOLEAN :: "Value \<Rightarrow> bool" where
  "VALUE_AS_BOOLEAN v = (v = TRUE_MASK)"

definition VALUE_IS_BOOLEAN :: "Value \<Rightarrow> bool" where
  "VALUE_IS_BOOLEAN v = (v AND (TAGGED_PRIMITIVE_MASK OR SIGN_MASK) = BOOLEAN_MASK)"

definition VALUE_IS_POINTER :: "Value \<Rightarrow> bool" where
  "VALUE_IS_POINTER v = (v AND POINTER_MASK = POINTER_MASK)"

definition VALUE_IS_NONE :: "Value \<Rightarrow> bool" where
  "VALUE_IS_NONE v = (v = NONE_MASK)"

definition VALUE_ASSUME_NOT_BOOL_TO_BOOL :: "Value \<Rightarrow> bool" where
  "VALUE_ASSUME_NOT_BOOL_TO_BOOL v = VALUE_IS_NONE v"

definition VALUE_IS_NUMBER :: "Value \<Rightarrow> bool" where
  "VALUE_IS_NUMBER v = (v AND TAGGED_VALUE_MASK \<noteq> TAGGED_VALUE_MASK)"

definition VALUE_BOTH_NUMBERS :: "Value \<Rightarrow> Value \<Rightarrow> bool" where
  "VALUE_BOTH_NUMBERS v1 v2 = (VALUE_IS_NUMBER v1 \<and> VALUE_IS_NUMBER v2)"

definition VALUE_GET_TAG :: "Value \<Rightarrow> 32 word" where
  "VALUE_GET_TAG v = ucast (drop_bit 32 v) AND TAG_MASK"

text \<open>
  Modelled from the spec: the integer, error and other-primitive tests. vm.c has no
  \<open>VALUE_IS_INTEGER\<close>, no usable \<open>VALUE_IS_ERROR\<close> (\<open>ERROR_MASK\<close> and \<open>VALUE_IS_PANIC\<close>
  do not expand to expressions) and no test for the remaining tags. The spec's data
  model: a primitive is a non-pointer tagged value whose 3-bit tag in bits 32-34 is
  0 (None), 1 (Boolean), 2 (Error), 7 (Integer); the other primitive kinds occupy the
  remaining tag codes. The tests follow the shape of \<open>VALUE_IS_BOOLEAN\<close>.
\<close>

definition isInteger :: "Value \<Rightarrow> bool" where
  "isInteger v = (v AND (TAGGED_PRIMITIVE_MASK OR SIGN_MASK) = INTEGER_MASK)"

definition isError :: "Value \<Rightarrow> bool" where
  "isError v =
     (v AND (TAGGED_PRIMITIVE_MASK OR SIGN_MASK)
        = (TAGGED_VALUE_MASK OR push_bit 32 (ucast TAG_ERROR)))"

definition isOtherPrimitive :: "Value \<Rightarrow> bool" where
  "isOtherPrimitive v =
     (v AND POINTER_MASK = TAGGED_VALUE_MASK \<and> VALUE_GET_TAG v \<in> {3, 4, 5, 6})"


section \<open>IEEE-754 comparison and negation on bit patterns\<close>

text \<open>
  \<open>ForRangeInit\<close> and \<open>ForRange\<close> compare doubles with \<open>==\<close> and \<open><\<close> and negate one.
  On binary64 these are exact and determined by the bits: a NaN (exponent all ones,
  mantissa non-zero) compares false with everything, otherwise values are ordered by
  sign and magnitude with \<open>-0 = +0\<close>; negation flips the sign bit. Addition and
  subtraction (which round) and the conversion of an integer to a double are taken from
  the host (\<open>Ext\<close> below).
\<close>

definition f64_magnitude :: "f64 \<Rightarrow> 64 word" where
  "f64_magnitude w = w AND 0x7fffffffffffffff"

definition f64_is_nan :: "f64 \<Rightarrow> bool" where
  "f64_is_nan w = (0x7ff0000000000000 < f64_magnitude w)"

definition f64_key :: "f64 \<Rightarrow> int" where
  "f64_key w = (if bit w 63 then - uint (f64_magnitude w) else uint (f64_magnitude w))"

definition f64_lt :: "f64 \<Rightarrow> f64 \<Rightarrow> bool" where
  "f64_lt a b = (\<not> f64_is_nan a \<and> \<not> f64_is_nan b \<and> f64_key a < f64_key b)"

definition f64_eq :: "f64 \<Rightarrow> f64 \<Rightarrow> bool" where
  "f64_eq a b = (\<not> f64_is_nan a \<and> \<not> f64_is_nan b \<and> f64_key a = f64_key b)"

definition f64_neg :: "f64 \<Rightarrow> f64" where
  "f64_neg w = w XOR SIGN_MASK"

definition f64_zero :: f64 where
  "f64_zero = 0"

section \<open>The VM, its memory and the host\<close>

text \<open>
  \<open>HeapObject\<close>: the common header \<open>retainedCommon\<close> (type id and reference count, both
  32 bits). \<open>VM\<close>: the fields of \<open>struct VM\<close> that vm.c reads or writes, together with
  the memory the pointers lead into: the bytecode (\<open>insts\<close>, one byte per address), the
  value slots of the evaluation stack and the constant pool (\<open>slots\<close>, one 8-byte
  \<open>Value\<close> per aligned address) and the object headers (\<open>heap\<close>). The three are kept
  apart: a store to a stack slot does not change a bytecode byte or a header. The source
  checks no pointer before it dereferences it, so the memories are total.
\<close>

record HeapObject =
  typeId :: TypeId
  rc :: "32 word"

record VM =
  curPc :: addr
  curStack :: addr
  constPtr :: addr
  stackEndPtr :: addr
  refCounts :: "64 word"
  insts :: "addr \<Rightarrow> Inst"
  slots :: "addr \<Rightarrow> Value"
  heap :: "addr \<Rightarrow> HeapObject"

datatype ResultCode =
  RES_CODE_SUCCESS | RES_CODE_TOKEN | RES_CODE_PARSE | RES_CODE_COMPILE
  | RES_CODE_PANIC | RES_CODE_UNKNOWN

text \<open>
  What vm.c takes from outside (vm.h and the Zig side, not in the sources): the
  compile-time switch \<open>TRACK_GLOBAL_RC\<close>, the constant \<open>TYPE_NUMBER\<close>, the \<open>z...\<close>
  functions, the native function pointers stored in the bytecode (called through
  \<open>callMethodPtr\<close> and \<open>callFuncPtr\<close>, which take the pointer first) and the rounding
  double operations (\<open>f64_of_int8\<close> is \<open>(double)(int8_t)b\<close> for a byte \<open>b\<close>). Each is a
  parameter; a function that gets \<open>vm\<close> may change it, and \<open>zOtherToF64\<close> may read it.
\<close>

record Ext =
  TRACK_GLOBAL_RC :: bool
  TYPE_NUMBER :: TypeId
  zFreeObject :: "VM \<Rightarrow> addr \<Rightarrow> VM"
  zOtherToF64 :: "VM \<Rightarrow> Value \<Rightarrow> f64"
  zEvalAddFallback :: "VM \<Rightarrow> Value \<Rightarrow> Value \<Rightarrow> ResultCode \<times> Value \<times> VM"
  zEvalSubFallback :: "VM \<Rightarrow> Value \<Rightarrow> Value \<Rightarrow> ResultCode \<times> Value \<times> VM"
  zAllocList :: "VM \<Rightarrow> addr \<Rightarrow> 8 word \<Rightarrow> ResultCode \<times> Value \<times> VM"
  zCallObjSym ::
    "VM \<Rightarrow> addr \<Rightarrow> addr \<Rightarrow> Value \<Rightarrow> TypeId \<Rightarrow> 8 word \<Rightarrow> 8 word \<Rightarrow> 8 word \<Rightarrow> 8 word
       \<Rightarrow> ResultCode \<times> addr \<times> addr \<times> VM"
  zCallSym ::
    "VM \<Rightarrow> addr \<Rightarrow> addr \<Rightarrow> 8 word \<Rightarrow> 8 word \<Rightarrow> 8 word \<Rightarrow> 8 word \<Rightarrow> addr \<times> addr \<times> VM"
  zEnd :: "VM \<Rightarrow> addr \<Rightarrow> VM"
  callMethodPtr :: "addr \<Rightarrow> VM \<Rightarrow> Value \<Rightarrow> addr \<Rightarrow> 8 word \<Rightarrow> Value \<times> VM"
  callFuncPtr :: "addr \<Rightarrow> VM \<Rightarrow> addr \<Rightarrow> 8 word \<Rightarrow> Value \<times> VM"
  f64_add :: "f64 \<Rightarrow> f64 \<Rightarrow> f64"
  f64_sub :: "f64 \<Rightarrow> f64 \<Rightarrow> f64"
  f64_of_int8 :: "8 word \<Rightarrow> f64"

text \<open>
  How one pass through the \<open>switch\<close> ends. \<open>Next pc stack vm\<close>: \<open>NEXT()\<close>, with the two
  registers of the loop. \<open>Return c pc stack vm\<close>: \<open>return c\<close>, with the registers as they
  stood (the C function returns only \<open>c\<close>). \<open>Fatal\<close>: \<open>zFatal()\<close> was called.
  \<open>Undefined\<close>: no case of the switch matches the opcode byte. \<open>Hang\<close>: a loop inside the
  handler does not end.
\<close>

text \<open>
  Modelled from the spec: \<open>zFatal\<close> (declared outside the sources) aborts the process
  through the host's fatal hook and does not return, hence the outcome \<open>Fatal\<close> carries no
  state. Every handler that calls it is written so (the unsupported opcodes would
  otherwise fall into the next case).
\<close>

datatype Outcome =
  Next addr addr VM
  | Return ResultCode addr addr VM
  | Fatal
  | Undefined
  | Hang

section \<open>Memory access\<close>

text \<open>\<open>stack[i]\<close> for a \<open>Value*\<close>: the slot 8 bytes times \<open>i\<close> further; \<open>pc[k]\<close> for an \<open>Inst*\<close>.\<close>

definition slot :: "addr \<Rightarrow> nat \<Rightarrow> addr" where
  "slot stack i = stack + 8 * of_nat i"

definition stack_get :: "VM \<Rightarrow> addr \<Rightarrow> nat \<Rightarrow> Value" where
  "stack_get vm stack i = slots vm (slot stack i)"

definition stack_set :: "VM \<Rightarrow> addr \<Rightarrow> nat \<Rightarrow> Value \<Rightarrow> VM" where
  "stack_set vm stack i v = vm\<lparr>slots := (slots vm)(slot stack i := v)\<rparr>"

definition pc_get :: "VM \<Rightarrow> addr \<Rightarrow> nat \<Rightarrow> Inst" where
  "pc_get vm pc k = insts vm (pc + of_nat k)"

definition pc_set :: "VM \<Rightarrow> addr \<Rightarrow> nat \<Rightarrow> Inst \<Rightarrow> VM" where
  "pc_set vm pc k b = vm\<lparr>insts := (insts vm)(pc + of_nat k := b)\<rparr>"

text \<open>
  \<open>*(uint8_t*)(stack + 1)\<close> and \<open>*((uint8_t*)(stack + 1) + 1)\<close>: bytes 0 and 1 of a slot.
  The host is little-endian (as the bytecode operands are): byte 0 is bits 0-7 of the
  \<open>Value\<close>, byte 1 is bits 8-15. A byte store leaves the other seven bytes as they were.
\<close>

definition byte0 :: "Value \<Rightarrow> 8 word" where
  "byte0 v = ucast v"

definition byte1 :: "Value \<Rightarrow> 8 word" where
  "byte1 v = ucast (drop_bit 8 v)"

definition set_byte0 :: "Value \<Rightarrow> 8 word \<Rightarrow> Value" where
  "set_byte0 v b = (v AND NOT 0xff) OR ucast b"

definition set_byte1 :: "Value \<Rightarrow> 8 word \<Rightarrow> Value" where
  "set_byte1 v b = (v AND NOT 0xff00) OR push_bit 8 (ucast b)"

definition READ_U16 :: "VM \<Rightarrow> addr \<Rightarrow> nat \<Rightarrow> 16 word" where
  "READ_U16 vm pc offset = ucast (pc_get vm pc offset) OR push_bit 8 (ucast (pc_get vm pc (offset + 1)))"

definition READ_I16 :: "VM \<Rightarrow> addr \<Rightarrow> nat \<Rightarrow> 16 word" where
  "READ_I16 vm pc offset = READ_U16 vm pc offset"

definition READ_U48 :: "VM \<Rightarrow> addr \<Rightarrow> nat \<Rightarrow> 64 word" where
  "READ_U48 vm pc offset =
     ucast (pc_get vm pc offset)
     OR push_bit 8 (ucast (pc_get vm pc (offset + 1)))
     OR push_bit 16 (ucast (pc_get vm pc (offset + 2)))
     OR push_bit 24 (ucast (pc_get vm pc (offset + 3)))
     OR push_bit 32 (ucast (pc_get vm pc (offset + 4)))
     OR push_bit 40 (ucast (pc_get vm pc (offset + 5)))"

section \<open>release, retain, toF64, getTypeId\<close>

definition release :: "Ext \<Rightarrow> VM \<Rightarrow> Value \<Rightarrow> VM" where
  "release ext vm v =
     (if VALUE_IS_POINTER v then
        let obj = VALUE_AS_HEAPOBJECT v;
            vm1 = vm\<lparr>heap := (heap vm)(obj := (heap vm obj)\<lparr>rc := rc (heap vm obj) - 1\<rparr>)\<rparr>;
            vm2 = (if TRACK_GLOBAL_RC ext then vm1\<lparr>refCounts := refCounts vm1 - 1\<rparr> else vm1)
        in if rc (heap vm2 obj) = 0 then zFreeObject ext vm2 obj else vm2
      else vm)"

definition retain :: "Ext \<Rightarrow> VM \<Rightarrow> Value \<Rightarrow> VM" where
  "retain ext vm v =
     (if VALUE_IS_POINTER v then
        let obj = VALUE_AS_HEAPOBJECT v;
            vm1 = vm\<lparr>heap := (heap vm)(obj := (heap vm obj)\<lparr>rc := rc (heap vm obj) + 1\<rparr>)\<rparr>
        in if TRACK_GLOBAL_RC ext then vm1\<lparr>refCounts := refCounts vm1 + 1\<rparr> else vm1
      else vm)"

definition toF64 :: "Ext \<Rightarrow> VM \<Rightarrow> Value \<Rightarrow> f64" where
  "toF64 ext vm v = (if VALUE_IS_NUMBER v then VALUE_AS_NUMBER v else zOtherToF64 ext vm v)"

definition getPrimitiveTypeId :: "Ext \<Rightarrow> Value \<Rightarrow> TypeId" where
  "getPrimitiveTypeId ext v = (if VALUE_IS_NUMBER v then TYPE_NUMBER ext else VALUE_GET_TAG v)"

definition getTypeId :: "Ext \<Rightarrow> VM \<Rightarrow> Value \<Rightarrow> TypeId" where
  "getTypeId ext vm v =
     (if VALUE_IS_POINTER v then typeId (heap vm (VALUE_AS_HEAPOBJECT v))
      else getPrimitiveTypeId ext v)"


section \<open>Opcodes\<close>

text \<open>
  The opcode bytes. \<open>jumpTable\<close> is indexed by \<open>*pc\<close> and lists the opcodes in the order
  of the enum (``case name matches enum''), so an opcode's byte is its position in the
  table. Only the opcodes with a handler of their own, and \<open>ForRangeReverse\<close> (stored by
  \<open>ForRangeInit\<close>), get a name; the table has 94 entries, \<open>ConstOp\<close> (0) to \<open>End\<close> (93).
\<close>

definition CodeConstOp :: Inst where
  "CodeConstOp = 0"

definition CodeConstI8 :: Inst where
  "CodeConstI8 = 1"

definition CodeConstI8Int :: Inst where
  "CodeConstI8Int = 2"

definition CodeAdd :: Inst where
  "CodeAdd = 3"

definition CodeSub :: Inst where
  "CodeSub = 4"

definition CodeTrue :: Inst where
  "CodeTrue = 5"

definition CodeFalse :: Inst where
  "CodeFalse = 6"

definition CodeNone :: Inst where
  "CodeNone = 7"

definition CodeCopy :: Inst where
  "CodeCopy = 9"

definition CodeCopyReleaseDst :: Inst where
  "CodeCopyReleaseDst = 10"

definition CodeCopyRetainSrc :: Inst where
  "CodeCopyRetainSrc = 13"

definition CodeList :: Inst where
  "CodeList = 16"

definition CodeJumpNotCond :: Inst where
  "CodeJumpNotCond = 20"

definition CodeJump :: Inst where
  "CodeJump = 22"

definition CodeRelease :: Inst where
  "CodeRelease = 23"

definition CodeCallObjSym :: Inst where
  "CodeCallObjSym = 25"

definition CodeCallObjNativeFuncIC :: Inst where
  "CodeCallObjNativeFuncIC = 26"

definition CodeCallSym :: Inst where
  "CodeCallSym = 28"

definition CodeCallFuncIC :: Inst where
  "CodeCallFuncIC = 29"

definition CodeCallNativeFuncIC :: Inst where
  "CodeCallNativeFuncIC = 30"

definition CodeRet1 :: Inst where
  "CodeRet1 = 31"

definition CodeSetInitN :: Inst where
  "CodeSetInitN = 54"

definition CodeJumpNotNone :: Inst where
  "CodeJumpNotNone = 80"

definition CodeAddInt :: Inst where
  "CodeAddInt = 81"

definition CodeSubInt :: Inst where
  "CodeSubInt = 82"

definition CodeLessInt :: Inst where
  "CodeLessInt = 83"

definition CodeForRangeInit :: Inst where
  "CodeForRangeInit = 84"

definition CodeForRange :: Inst where
  "CodeForRange = 85"

definition CodeEnd :: Inst where
  "CodeEnd = 93"

definition CodeForRangeReverse :: Inst where
  "CodeForRangeReverse = 86"

definition numOpCodes :: nat where
  "numOpCodes = 94"

section \<open>The handlers of execBytecode\<close>

definition op_ConstOp :: "addr \<Rightarrow> addr \<Rightarrow> VM \<Rightarrow> Outcome" where
  "op_ConstOp pc stack vm =
     Next (pc + 3) stack
       (stack_set vm stack (unat (pc_get vm pc 2))
          (VALUE_RAW (slots vm (slot (constPtr vm) (unat (pc_get vm pc 1))))))"

definition op_ConstI8 :: "Ext \<Rightarrow> addr \<Rightarrow> addr \<Rightarrow> VM \<Rightarrow> Outcome" where
  "op_ConstI8 ext pc stack vm =
     Next (pc + 3) stack
       (stack_set vm stack (unat (pc_get vm pc 2)) (VALUE_NUMBER (f64_of_int8 ext (pc_get vm pc 1))))"

text \<open>\<open>VALUE_INTEGER((int32_t)pc[1])\<close>: the byte is unsigned, the cast widens it with zeros.\<close>

definition op_ConstI8Int :: "addr \<Rightarrow> addr \<Rightarrow> VM \<Rightarrow> Outcome" where
  "op_ConstI8Int pc stack vm =
     Next (pc + 3) stack
       (stack_set vm stack (unat (pc_get vm pc 2)) (VALUE_INTEGER (ucast (pc_get vm pc 1))))"

definition op_Add :: "Ext \<Rightarrow> addr \<Rightarrow> addr \<Rightarrow> VM \<Rightarrow> Outcome" where
  "op_Add ext pc stack vm =
     (let left = stack_get vm stack (unat (pc_get vm pc 1));
          right = stack_get vm stack (unat (pc_get vm pc 2))
      in if VALUE_BOTH_NUMBERS left right then
           Next (pc + 4) stack
             (stack_set vm stack (unat (pc_get vm pc 3))
                (VALUE_NUMBER (f64_add ext (VALUE_AS_NUMBER left) (VALUE_AS_NUMBER right))))
         else
           (case zEvalAddFallback ext vm left right of
              (c, v, vm1) \<Rightarrow>
                if c \<noteq> RES_CODE_SUCCESS then Return c pc stack vm1
                else Next (pc + 4) stack (stack_set vm1 stack (unat (pc_get vm1 pc 3)) v)))"

definition op_Sub :: "Ext \<Rightarrow> addr \<Rightarrow> addr \<Rightarrow> VM \<Rightarrow> Outcome" where
  "op_Sub ext pc stack vm =
     (let left = stack_get vm stack (unat (pc_get vm pc 1));
          right = stack_get vm stack (unat (pc_get vm pc 2))
      in if VALUE_BOTH_NUMBERS left right then
           Next (pc + 4) stack
             (stack_set vm stack (unat (pc_get vm pc 3))
                (VALUE_NUMBER (f64_sub ext (VALUE_AS_NUMBER left) (VALUE_AS_NUMBER right))))
         else
           (case zEvalSubFallback ext vm left right of
              (c, v, vm1) \<Rightarrow>
                if c \<noteq> RES_CODE_SUCCESS then Return c pc stack vm1
                else Next (pc + 4) stack (stack_set vm1 stack (unat (pc_get vm1 pc 3)) v)))"

definition op_True :: "addr \<Rightarrow> addr \<Rightarrow> VM \<Rightarrow> Outcome" where
  "op_True pc stack vm = Next (pc + 2) stack (stack_set vm stack (unat (pc_get vm pc 1)) VALUE_TRUE)"

definition op_False :: "addr \<Rightarrow> addr \<Rightarrow> VM \<Rightarrow> Outcome" where
  "op_False pc stack vm = Next (pc + 2) stack (stack_set vm stack (unat (pc_get vm pc 1)) VALUE_FALSE)"

definition op_None :: "addr \<Rightarrow> addr \<Rightarrow> VM \<Rightarrow> Outcome" where
  "op_None pc stack vm = Next (pc + 2) stack (stack_set vm stack (unat (pc_get vm pc 1)) VALUE_NONE)"

definition op_Copy :: "addr \<Rightarrow> addr \<Rightarrow> VM \<Rightarrow> Outcome" where
  "op_Copy pc stack vm =
     Next (pc + 3) stack
       (stack_set vm stack (unat (pc_get vm pc 2)) (stack_get vm stack (unat (pc_get vm pc 1))))"

definition op_CopyReleaseDst :: "Ext \<Rightarrow> addr \<Rightarrow> addr \<Rightarrow> VM \<Rightarrow> Outcome" where
  "op_CopyReleaseDst ext pc stack vm =
     (let dst = pc_get vm pc 2;
          vm1 = release ext vm (stack_get vm stack (unat dst))
      in Next (pc + 3) stack
           (stack_set vm1 stack (unat dst) (stack_get vm1 stack (unat (pc_get vm1 pc 1)))))"

definition op_CopyRetainSrc :: "Ext \<Rightarrow> addr \<Rightarrow> addr \<Rightarrow> VM \<Rightarrow> Outcome" where
  "op_CopyRetainSrc ext pc stack vm =
     (let v = stack_get vm stack (unat (pc_get vm pc 1));
          vm1 = retain ext vm v
      in Next (pc + 3) stack (stack_set vm1 stack (unat (pc_get vm1 pc 2)) v))"

definition op_List :: "Ext \<Rightarrow> addr \<Rightarrow> addr \<Rightarrow> VM \<Rightarrow> Outcome" where
  "op_List ext pc stack vm =
     (let startLocal = pc_get vm pc 1;
          numElems = pc_get vm pc 2
      in case zAllocList ext vm (slot stack (unat startLocal)) numElems of
           (c, v, vm1) \<Rightarrow>
             if c \<noteq> RES_CODE_SUCCESS then Return c pc stack vm1
             else Next (pc + 4) stack (stack_set vm1 stack (unat (pc_get vm1 pc 3)) v))"

definition op_JumpNotCond :: "addr \<Rightarrow> addr \<Rightarrow> VM \<Rightarrow> Outcome" where
  "op_JumpNotCond pc stack vm =
     (let jump = READ_U16 vm pc 1;
          cond = stack_get vm stack (unat (pc_get vm pc 3));
          condVal = (if VALUE_IS_BOOLEAN cond then VALUE_AS_BOOLEAN cond
                     else VALUE_ASSUME_NOT_BOOL_TO_BOOL cond)
      in if \<not> condVal then Next (pc + ucast jump) stack vm
         else Next (pc + 4) stack vm)"

definition op_Jump :: "addr \<Rightarrow> addr \<Rightarrow> VM \<Rightarrow> Outcome" where
  "op_Jump pc stack vm = Next (pc + scast (READ_I16 vm pc 1)) stack vm"

definition op_Release :: "Ext \<Rightarrow> addr \<Rightarrow> addr \<Rightarrow> VM \<Rightarrow> Outcome" where
  "op_Release ext pc stack vm =
     Next (pc + 2) stack (release ext vm (stack_get vm stack (unat (pc_get vm pc 1))))"

definition op_CallObjSym :: "Ext \<Rightarrow> addr \<Rightarrow> addr \<Rightarrow> VM \<Rightarrow> Outcome" where
  "op_CallObjSym ext pc stack vm =
     (let startLocal = pc_get vm pc 1;
          numArgs = pc_get vm pc 2;
          numRet = pc_get vm pc 3;
          symId = pc_get vm pc 4;
          recv = stack_get vm stack (unat startLocal + unat numArgs + 4 - 1);
          tid = getTypeId ext vm recv
      in case zCallObjSym ext vm pc stack recv tid symId startLocal numArgs numRet of
           (c, pc1, stack1, vm1) \<Rightarrow>
             if c \<noteq> RES_CODE_SUCCESS then Return c pc stack vm1
             else Next pc1 stack1 vm1)"

text \<open>
  \<open>CallObjNativeFuncIC\<close>: on a cached type id the native method is called (with
  \<open>vm->curStack\<close> set first) and \<open>numRet\<close> is read after the call; otherwise only the
  opcode byte at \<open>pc\<close> is overwritten and the same \<open>pc\<close> is dispatched again.
\<close>

definition op_CallObjNativeFuncIC :: "Ext \<Rightarrow> addr \<Rightarrow> addr \<Rightarrow> VM \<Rightarrow> Outcome" where
  "op_CallObjNativeFuncIC ext pc stack vm =
     (let startLocal = pc_get vm pc 1;
          numArgs = pc_get vm pc 2;
          recv = stack_get vm stack (unat startLocal + unat numArgs + 4 - 1);
          tid = getTypeId ext vm recv;
          cachedTypeId = (ucast (READ_U16 vm pc 12) :: TypeId)
      in if tid = cachedTypeId then
           (case callMethodPtr ext (READ_U48 vm pc 6) (vm\<lparr>curStack := stack\<rparr>) recv
                   (slot stack (unat startLocal + 4)) numArgs of
              (res, vm1) \<Rightarrow>
                let numRet = pc_get vm1 pc 3
                in if numRet = 1 then Next (pc + 14) stack (stack_set vm1 stack (unat startLocal) res)
                   else if numRet = 0 then Next (pc + 14) stack vm1
                   else Fatal)
         else Next pc stack (pc_set vm pc 0 CodeCallObjSym))"

definition op_CallSym :: "Ext \<Rightarrow> addr \<Rightarrow> addr \<Rightarrow> VM \<Rightarrow> Outcome" where
  "op_CallSym ext pc stack vm =
     (let startLocal = pc_get vm pc 1;
          numArgs = pc_get vm pc 2;
          numRet = pc_get vm pc 3;
          symId = pc_get vm pc 4
      in case zCallSym ext vm pc stack symId startLocal numArgs numRet of
           (pc1, stack1, vm1) \<Rightarrow> Next pc1 stack1 vm1)"

text \<open>
  \<open>CallFuncIC\<close>: the frame check compares addresses (\<open>stack + startLocal + numLocals\<close> is
  \<open>Value*\<close> arithmetic, 8 bytes per slot) and calls \<open>zFatal()\<close>; the
  \<open>return error.StackOverflow\<close> beside it is commented out.
\<close>

definition op_CallFuncIC :: "addr \<Rightarrow> addr \<Rightarrow> VM \<Rightarrow> Outcome" where
  "op_CallFuncIC pc stack vm =
     (let startLocal = pc_get vm pc 1;
          numLocals = pc_get vm pc 4
      in if stackEndPtr vm \<le> slot (slot stack (unat startLocal)) (unat numLocals) then Fatal
         else
           let retFramePtr = stack;
               stack1 = slot stack (unat startLocal);
               vm1 = stack_set vm stack1 1 (set_byte0 (stack_get vm stack1 1) (pc_get vm pc 3));
               vm2 = stack_set vm1 stack1 1 (set_byte1 (stack_get vm1 stack1 1) 0);
               vm3 = stack_set vm2 stack1 2 (pc + 11);
               vm4 = stack_set vm3 stack1 3 retFramePtr
           in Next (READ_U48 vm4 pc 5) stack1 vm4)"

definition op_CallNativeFuncIC :: "Ext \<Rightarrow> addr \<Rightarrow> addr \<Rightarrow> VM \<Rightarrow> Outcome" where
  "op_CallNativeFuncIC ext pc stack vm =
     (let startLocal = pc_get vm pc 1;
          numArgs = pc_get vm pc 2;
          newStack = slot stack (unat startLocal)
      in case callFuncPtr ext (READ_U48 vm pc 5) (vm\<lparr>curStack := newStack\<rparr>)
                (slot newStack 4) numArgs of
           (res, vm1) \<Rightarrow>
             let numRet = pc_get vm1 pc 3
             in if numRet = 1 then Next (pc + 11) stack (stack_set vm1 newStack 0 res)
                else if numRet = 0 then Next (pc + 11) stack vm1
                else Fatal)"

text \<open>
  \<open>Ret1\<close>. \<open>retFlag\<close> is written \<open>(byte1 & 0x1 > 0)\<close>; the comparison binds tighter than \<open>&\<close>, so
  this is \<open>byte1 & 1\<close> converted to \<open>bool\<close>. On the way out the two branches are the same:
  \<open>pc\<close> from slot 2, \<open>stack\<close> from slot 3, then \<open>NEXT()\<close> or \<open>return RES_CODE_SUCCESS\<close>.
\<close>

definition ret_frame :: "bool \<Rightarrow> addr \<Rightarrow> VM \<Rightarrow> Outcome" where
  "ret_frame retFlag stack vm =
     (let pc1 = stack_get vm stack 2;
          stack1 = stack_get vm stack 3
      in if \<not> retFlag then Next pc1 stack1 vm
         else Return RES_CODE_SUCCESS pc1 stack1 vm)"

definition op_Ret1 :: "Ext \<Rightarrow> addr \<Rightarrow> addr \<Rightarrow> VM \<Rightarrow> Outcome" where
  "op_Ret1 ext pc stack vm =
     (let reqNumArgs = byte0 (stack_get vm stack 1);
          retFlag = (byte1 (stack_get vm stack 1) AND (if (0x1 :: int) > 0 then 1 else 0) \<noteq> 0)
      in if reqNumArgs = 1 then ret_frame retFlag stack vm
         else if reqNumArgs = 0 then ret_frame retFlag stack (release ext vm (stack_get vm stack 0))
         else Fatal)"

text \<open>
  \<open>SetInitN\<close>: \<open>for (i = 2; i < 2 + numLocals; i += 1)\<close> with \<open>i\<close> a \<open>uint8_t\<close> and the
  bound an \<open>int\<close>. For \<open>numLocals\<close> up to 253 the loop stores \<open>VALUE_NONE\<close> into slots 2
  to \<open>numLocals + 1\<close>; from 254 on the bound exceeds 255, \<open>i\<close> wraps to 0 and the loop
  does not end.
\<close>

definition op_SetInitN :: "addr \<Rightarrow> addr \<Rightarrow> VM \<Rightarrow> Outcome" where
  "op_SetInitN pc stack vm =
     (let numLocals = pc_get vm pc 1
      in if 255 < 2 + unat numLocals then Hang
         else Next (pc + 2 + ucast numLocals) stack
                (fold (\<lambda>i m. stack_set m stack i VALUE_NONE) [2 ..< 2 + unat numLocals] vm))"

definition op_JumpNotNone :: "addr \<Rightarrow> addr \<Rightarrow> VM \<Rightarrow> Outcome" where
  "op_JumpNotNone pc stack vm =
     (let offset = READ_I16 vm pc 1
      in if \<not> VALUE_IS_NONE (stack_get vm stack (unat (pc_get vm pc 3)))
         then Next (pc + scast offset) stack vm
         else Next (pc + 4) stack vm)"

text \<open>
  \<open>AddInt\<close>, \<open>SubInt\<close>: \<open>int32_t\<close> arithmetic. Signed overflow is undefined in C; the
  model wraps in two's complement, as the target machines do.
\<close>

definition op_AddInt :: "addr \<Rightarrow> addr \<Rightarrow> VM \<Rightarrow> Outcome" where
  "op_AddInt pc stack vm =
     (let left = stack_get vm stack (unat (pc_get vm pc 1));
          right = stack_get vm stack (unat (pc_get vm pc 2))
      in Next (pc + 4) stack
           (stack_set vm stack (unat (pc_get vm pc 3))
              (VALUE_INTEGER (VALUE_AS_INTEGER left + VALUE_AS_INTEGER right))))"

definition op_SubInt :: "addr \<Rightarrow> addr \<Rightarrow> VM \<Rightarrow> Outcome" where
  "op_SubInt pc stack vm =
     (let left = stack_get vm stack (unat (pc_get vm pc 1));
          right = stack_get vm stack (unat (pc_get vm pc 2))
      in Next (pc + 4) stack
           (stack_set vm stack (unat (pc_get vm pc 3))
              (VALUE_INTEGER (VALUE_AS_INTEGER left - VALUE_AS_INTEGER right))))"

definition op_LessInt :: "addr \<Rightarrow> addr \<Rightarrow> VM \<Rightarrow> Outcome" where
  "op_LessInt pc stack vm =
     (let left = stack_get vm stack (unat (pc_get vm pc 1));
          right = stack_get vm stack (unat (pc_get vm pc 2))
      in Next (pc + 4) stack
           (stack_set vm stack (unat (pc_get vm pc 3))
              (VALUE_BOOLEAN (sint (VALUE_AS_INTEGER left) < sint (VALUE_AS_INTEGER right)))))"

definition op_ForRangeInit :: "Ext \<Rightarrow> addr \<Rightarrow> addr \<Rightarrow> VM \<Rightarrow> Outcome" where
  "op_ForRangeInit ext pc stack vm =
     (let start = toF64 ext vm (stack_get vm stack (unat (pc_get vm pc 1)));
          endv = toF64 ext vm (stack_get vm stack (unat (pc_get vm pc 2)));
          vm1 = stack_set vm stack (unat (pc_get vm pc 2)) (VALUE_NUMBER endv);
          step0 = toF64 ext vm1 (stack_get vm1 stack (unat (pc_get vm1 pc 3)));
          step1 = (if f64_lt step0 f64_zero then f64_neg step0 else step0);
          vm2 = stack_set vm1 stack (unat (pc_get vm1 pc 3)) (VALUE_NUMBER step1)
      in if f64_eq start endv then Next (pc + (ucast (READ_U16 vm2 pc 6) + 7)) stack vm2
         else
           let vm3 = stack_set vm2 stack (unat (pc_get vm2 pc 4)) (VALUE_NUMBER start);
               vm4 = stack_set vm3 stack (unat (pc_get vm3 pc 5)) (VALUE_NUMBER start);
               offset = READ_U16 vm4 pc 6;
               vm5 = (if f64_lt start endv then pc_set vm4 pc (unat offset) CodeForRange
                      else pc_set vm4 pc (unat offset) CodeForRangeReverse)
           in Next (pc + 8) stack vm5)"

definition op_ForRange :: "Ext \<Rightarrow> addr \<Rightarrow> addr \<Rightarrow> VM \<Rightarrow> Outcome" where
  "op_ForRange ext pc stack vm =
     (let counter = f64_add ext (VALUE_AS_NUMBER (stack_get vm stack (unat (pc_get vm pc 1))))
                      (VALUE_AS_NUMBER (stack_get vm stack (unat (pc_get vm pc 2))))
      in if f64_lt counter (VALUE_AS_NUMBER (stack_get vm stack (unat (pc_get vm pc 3)))) then
           let vm1 = stack_set vm stack (unat (pc_get vm pc 1)) (VALUE_NUMBER counter);
               vm2 = stack_set vm1 stack (unat (pc_get vm1 pc 4)) (VALUE_NUMBER counter)
           in Next (pc - ucast (READ_U16 vm2 pc 5)) stack vm2
         else Next (pc + 7) stack vm)"

definition op_End :: "Ext \<Rightarrow> addr \<Rightarrow> addr \<Rightarrow> VM \<Rightarrow> Outcome" where
  "op_End ext pc stack vm = Return RES_CODE_SUCCESS pc stack (zEnd ext vm pc)"

section \<open>The dispatch loop\<close>

text \<open>
  One pass through \<open>switch ((OpCode)*pc)\<close>. Every opcode of the table without a handler
  of its own prints ``Unsupported'' and calls \<open>zFatal()\<close>.
\<close>

definition step :: "Ext \<Rightarrow> addr \<Rightarrow> addr \<Rightarrow> VM \<Rightarrow> Outcome" where
  "step ext pc stack vm =
     (let opc = insts vm pc
      in if opc = CodeConstOp then op_ConstOp pc stack vm
         else if opc = CodeConstI8 then op_ConstI8 ext pc stack vm
         else if opc = CodeConstI8Int then op_ConstI8Int pc stack vm
         else if opc = CodeAdd then op_Add ext pc stack vm
         else if opc = CodeSub then op_Sub ext pc stack vm
         else if opc = CodeTrue then op_True pc stack vm
         else if opc = CodeFalse then op_False pc stack vm
         else if opc = CodeNone then op_None pc stack vm
         else if opc = CodeCopy then op_Copy pc stack vm
         else if opc = CodeCopyReleaseDst then op_CopyReleaseDst ext pc stack vm
         else if opc = CodeCopyRetainSrc then op_CopyRetainSrc ext pc stack vm
         else if opc = CodeList then op_List ext pc stack vm
         else if opc = CodeJumpNotCond then op_JumpNotCond pc stack vm
         else if opc = CodeJump then op_Jump pc stack vm
         else if opc = CodeRelease then op_Release ext pc stack vm
         else if opc = CodeCallObjSym then op_CallObjSym ext pc stack vm
         else if opc = CodeCallObjNativeFuncIC then op_CallObjNativeFuncIC ext pc stack vm
         else if opc = CodeCallSym then op_CallSym ext pc stack vm
         else if opc = CodeCallFuncIC then op_CallFuncIC pc stack vm
         else if opc = CodeCallNativeFuncIC then op_CallNativeFuncIC ext pc stack vm
         else if opc = CodeRet1 then op_Ret1 ext pc stack vm
         else if opc = CodeSetInitN then op_SetInitN pc stack vm
         else if opc = CodeJumpNotNone then op_JumpNotNone pc stack vm
         else if opc = CodeAddInt then op_AddInt pc stack vm
         else if opc = CodeSubInt then op_SubInt pc stack vm
         else if opc = CodeLessInt then op_LessInt pc stack vm
         else if opc = CodeForRangeInit then op_ForRangeInit ext pc stack vm
         else if opc = CodeForRange then op_ForRange ext pc stack vm
         else if opc = CodeEnd then op_End ext pc stack vm
         else if unat opc < numOpCodes then Fatal
         else Undefined)"

text \<open>
  \<open>execBytecode\<close>: load \<open>pc\<close> and \<open>stack\<close> from the VM and dispatch until a handler
  returns or the process is stopped. The loop has no bound of its own; \<open>run\<close> counts the
  instructions it may still dispatch and yields \<open>None\<close> when the count is used up.
\<close>

fun run :: "Ext \<Rightarrow> nat \<Rightarrow> addr \<Rightarrow> addr \<Rightarrow> VM \<Rightarrow> Outcome option" where
  "run ext 0 pc stack vm = None"
| "run ext (Suc n) pc stack vm =
     (case step ext pc stack vm of
        Next pc1 stack1 vm1 \<Rightarrow> run ext n pc1 stack1 vm1
      | out \<Rightarrow> Some out)"

definition execBytecode :: "Ext \<Rightarrow> nat \<Rightarrow> VM \<Rightarrow> Outcome option" where
  "execBytecode ext fuel vm = run ext fuel (curPc vm) (curStack vm) vm"


section \<open>A sample host and sample machines\<close>

text \<open>
  Concrete inputs for the instances below: a host whose functions do as little as their
  types allow (\<open>zFreeObject\<close> poisons the header's type id, the native method returns
  \<open>true\<close>), an empty machine, and a loader for bytecode bytes.
\<close>

definition host0 :: Ext where
  "host0 = \<lparr>
     TRACK_GLOBAL_RC = True,
     TYPE_NUMBER = 8,
     zFreeObject = (\<lambda>vm obj. vm\<lparr>heap := (heap vm)(obj := (heap vm obj)\<lparr>typeId := - 1\<rparr>)\<rparr>),
     zOtherToF64 = (\<lambda>vm v. 0),
     zEvalAddFallback = (\<lambda>vm a b. (RES_CODE_PANIC, 0, vm)),
     zEvalSubFallback = (\<lambda>vm a b. (RES_CODE_PANIC, 0, vm)),
     zAllocList = (\<lambda>vm p n. (RES_CODE_PANIC, 0, vm)),
     zCallObjSym = (\<lambda>vm pc stack recv tid symId startLocal numArgs numRet.
                      (RES_CODE_PANIC, pc, stack, vm)),
     zCallSym = (\<lambda>vm pc stack symId startLocal numArgs numRet. (pc, stack, vm)),
     zEnd = (\<lambda>vm pc. vm\<lparr>curPc := pc\<rparr>),
     callMethodPtr = (\<lambda>fn vm recv args n. (TRUE_MASK, vm)),
     callFuncPtr = (\<lambda>fn vm args n. (TRUE_MASK, vm)),
     f64_add = (\<lambda>a b. 0),
     f64_sub = (\<lambda>a b. 0),
     f64_of_int8 = (\<lambda>b. 0) \<rparr>"

definition vm0 :: VM where
  "vm0 = \<lparr>
     curPc = 0, curStack = 0x1000, constPtr = 0x800, stackEndPtr = 0x2000, refCounts = 0,
     insts = (\<lambda>a. 0), slots = (\<lambda>a. 0), heap = (\<lambda>a. \<lparr>typeId = 0, rc = 0\<rparr>) \<rparr>"

primrec load_insts :: "addr \<Rightarrow> Inst list \<Rightarrow> (addr \<Rightarrow> Inst) \<Rightarrow> (addr \<Rightarrow> Inst)" where
  "load_insts a [] m = m"
| "load_insts a (b # bs) m = load_insts (a + 1) bs (m(a := b))"

text \<open>A machine with the bytes \<open>bs\<close> at address 0 and the values \<open>vs\<close> from slot 0 of the
  frame at \<open>0x1000\<close>.\<close>

primrec load_slots :: "addr \<Rightarrow> Value list \<Rightarrow> (addr \<Rightarrow> Value) \<Rightarrow> (addr \<Rightarrow> Value)" where
  "load_slots a [] m = m"
| "load_slots a (v # vs) m = load_slots (a + 8) vs (m(a := v))"

definition machine :: "Inst list \<Rightarrow> Value list \<Rightarrow> VM" where
  "machine bs vs =
     vm0\<lparr>insts := load_insts 0 bs (insts vm0), slots := load_slots 0x1000 vs (slots vm0)\<rparr>"


section \<open>Unfolding rules\<close>

lemmas mask_defs =
  SIGN_MASK_def TAGGED_VALUE_MASK_def TAG_MASK_def TAGGED_PRIMITIVE_MASK_def TAG_NONE_def
  TAG_BOOLEAN_def TAG_ERROR_def TAG_INTEGER_def INTEGER_MASK_def BOOLEAN_MASK_def
  FALSE_MASK_def TRUE_BIT_MASK_def TRUE_MASK_def NONE_MASK_def POINTER_MASK_def

lemmas opcode_defs =
  CodeConstOp_def CodeConstI8_def CodeConstI8Int_def CodeAdd_def CodeSub_def CodeTrue_def
  CodeFalse_def CodeNone_def CodeCopy_def CodeCopyReleaseDst_def CodeCopyRetainSrc_def
  CodeList_def CodeJumpNotCond_def CodeJump_def CodeRelease_def CodeCallObjSym_def
  CodeCallObjNativeFuncIC_def CodeCallSym_def CodeCallFuncIC_def CodeCallNativeFuncIC_def
  CodeRet1_def CodeSetInitN_def CodeJumpNotNone_def CodeAddInt_def CodeSubInt_def
  CodeLessInt_def CodeForRangeInit_def CodeForRange_def CodeEnd_def CodeForRangeReverse_def

lemmas mem_defs = slot_def stack_get_def stack_set_def pc_get_def pc_set_def

lemmas sample_defs = machine_def vm0_def

section \<open>The bits of the masks\<close>

lemma bit_POINTER_MASK: "bit POINTER_MASK k \<longleftrightarrow> 50 \<le> k \<and> k < 64"
proof -
  have h: "POINTER_MASK = push_bit 50 (mask 14)"
    by (simp add: mask_defs mask_eq_exp_minus_1)
  show ?thesis unfolding h
    by (auto simp add: bit_simps)
qed

lemma bit_SIGN_MASK: "bit SIGN_MASK k \<longleftrightarrow> k = 63"
  unfolding SIGN_MASK_def
  by (simp only: bit_push_bit_iff bit_1_iff possible_bit_word) auto

lemma bit_INTEGER_MASK:
  "bit INTEGER_MASK k \<longleftrightarrow> (32 \<le> k \<and> k < 35) \<or> (50 \<le> k \<and> k < 63)"
proof -
  have h: "INTEGER_MASK = push_bit 50 (mask 13) OR push_bit 32 (mask 3)"
    by (simp add: mask_defs mask_eq_exp_minus_1)
  show ?thesis unfolding h
    by (auto simp add: bit_simps)
qed

lemma bit_TAGGED_PRIMITIVE_MASK:
  "bit TAGGED_PRIMITIVE_MASK k \<longleftrightarrow> (32 \<le> k \<and> k < 35) \<or> (50 \<le> k \<and> k < 63)"
proof -
  have h: "TAGGED_PRIMITIVE_MASK = push_bit 50 (mask 13) OR push_bit 32 (mask 3)"
    by (simp add: mask_defs mask_eq_exp_minus_1)
  show ?thesis unfolding h
    by (auto simp add: bit_simps)
qed

lemmas mask_bits = bit_POINTER_MASK bit_SIGN_MASK bit_INTEGER_MASK bit_TAGGED_PRIMITIVE_MASK

section \<open>The integer constructor\<close>

text \<open>The low 32 bits survive: \<open>VALUE_AS_INTEGER\<close> reads back what \<open>VALUE_INTEGER\<close> was given.\<close>

lemma VALUE_AS_INTEGER_VALUE_INTEGER: "VALUE_AS_INTEGER (VALUE_INTEGER n) = n"
proof -
  have b: "(0xffffffff :: 64 word) = mask 32"
    by (simp add: mask_eq_exp_minus_1)
  show ?thesis
    unfolding VALUE_AS_INTEGER_def VALUE_INTEGER_def b
    by (rule bit_word_eqI) (auto simp add: bit_simps mask_bits)
qed

text \<open>A negative argument is sign-extended over the tag and the sign bit: the result
  passes \<open>VALUE_IS_POINTER\<close>.\<close>

lemma VALUE_INTEGER_negative: "sint n < 0 \<Longrightarrow> VALUE_IS_POINTER (VALUE_INTEGER n)"
proof -
  assume "sint n < 0"
  then have s: "bit n 31"
    using bit_last_iff [of n] by simp
  show ?thesis
    unfolding VALUE_IS_POINTER_def VALUE_INTEGER_def
    using s by - (rule bit_word_eqI, auto simp add: bit_simps mask_bits)
qed

text \<open>A non-negative argument gives an integer-tagged value that is no pointer.\<close>

lemma VALUE_INTEGER_nonnegative:
  "0 \<le> sint n \<Longrightarrow> isInteger (VALUE_INTEGER n) \<and> \<not> VALUE_IS_POINTER (VALUE_INTEGER n)"
proof -
  assume "0 \<le> sint n"
  then have s: "\<not> bit n 31"
    using bit_last_iff [of n] by simp
  have 1: "isInteger (VALUE_INTEGER n)"
    unfolding VALUE_INTEGER_def isInteger_def
    using s by - (rule bit_word_eqI, auto simp add: bit_simps mask_bits)
  have 2: "\<not> VALUE_IS_POINTER (VALUE_INTEGER n)"
  proof
    assume "VALUE_IS_POINTER (VALUE_INTEGER n)"
    then have "bit ((INTEGER_MASK OR scast n) AND POINTER_MASK) 63 = bit POINTER_MASK 63"
      by (simp add: VALUE_IS_POINTER_def VALUE_INTEGER_def)
    then show False
      using s by (simp add: bit_simps mask_bits)
  qed
  show ?thesis
    using 1 2 by simp
qed

text \<open>A pointer is never integer-tagged (the integer test requires a clear sign bit).\<close>

lemma pointer_not_integer: "VALUE_IS_POINTER v \<Longrightarrow> \<not> isInteger v"
proof
  assume p: "VALUE_IS_POINTER v" and i: "isInteger v"
  from p have "bit (v AND POINTER_MASK) 63 = bit POINTER_MASK 63"
    by (simp add: VALUE_IS_POINTER_def)
  then have v: "bit v 63"
    by (simp add: bit_simps mask_bits)
  from i have "bit (v AND (TAGGED_PRIMITIVE_MASK OR SIGN_MASK)) 63 = bit INTEGER_MASK 63"
    by (simp add: isInteger_def)
  then show False
    using v by (simp add: bit_simps mask_bits)
qed

text \<open>
  C1 (the code departs from the claim). \<open>VALUE_INTEGER\<close> of the \<open>int32_t\<close> \<open>-1\<close> is the
  word of 64 ones: it passes \<open>VALUE_IS_POINTER\<close> and fails the integer test, where the
  claim has every \<open>int32\<close>, negative ones included, integer-tagged and no pointer.
\<close>

theorem VALUE_INTEGER_minus_one_is_pointer:
  "VALUE_INTEGER (- 1) = - 1 \<and> VALUE_IS_POINTER (VALUE_INTEGER (- 1))
     \<and> \<not> isInteger (VALUE_INTEGER (- 1))"
  by (simp add: VALUE_INTEGER_def VALUE_IS_POINTER_def isInteger_def mask_defs)


section \<open>JumpNotCond\<close>

lemma step_JumpNotCond:
  "insts vm pc = CodeJumpNotCond \<Longrightarrow> step ext pc stack vm = op_JumpNotCond pc stack vm"
  by (simp add: step_def opcode_defs)

text \<open>A Boolean operand: fall through (by 4) on \<open>true\<close>, jump otherwise.\<close>

lemma JumpNotCond_boolean:
  "VALUE_IS_BOOLEAN (stack_get vm stack (unat (pc_get vm pc 3))) \<Longrightarrow>
   op_JumpNotCond pc stack vm =
     (if stack_get vm stack (unat (pc_get vm pc 3)) = TRUE_MASK then Next (pc + 4) stack vm
      else Next (pc + ucast (READ_U16 vm pc 1)) stack vm)"
  by (simp add: op_JumpNotCond_def VALUE_AS_BOOLEAN_def Let_def)

text \<open>Any other operand: \<open>VALUE_ASSUME_NOT_BOOL_TO_BOOL\<close> is \<open>VALUE_IS_NONE\<close>, so the
  condition counts as true for \<open>None\<close> alone. \<open>None\<close> falls through; everything else
  jumps.\<close>

lemma JumpNotCond_non_boolean:
  "\<not> VALUE_IS_BOOLEAN (stack_get vm stack (unat (pc_get vm pc 3))) \<Longrightarrow>
   op_JumpNotCond pc stack vm =
     (if stack_get vm stack (unat (pc_get vm pc 3)) = NONE_MASK then Next (pc + 4) stack vm
      else Next (pc + ucast (READ_U16 vm pc 1)) stack vm)"
  by (simp add: op_JumpNotCond_def VALUE_ASSUME_NOT_BOOL_TO_BOOL_def VALUE_IS_NONE_def Let_def)

text \<open>
  C2 (the code departs from the claim). \<open>JumpNotCond\<close> with offset \<open>0x10\<close> and the operand
  in register 0. With \<open>None\<close> (falsy) in the register the next \<open>pc\<close> is \<open>pc + 4\<close>: no
  jump. With the integer 0 (truthy, no Boolean, not \<open>None\<close>) the next \<open>pc\<close> is
  \<open>pc + 0x10\<close>: the jump is taken. The claim has it the other way round.
\<close>

theorem JumpNotCond_none_falls_through:
  "step ext 0 0x1000 (machine [20, 0x10, 0, 0] [VALUE_NONE])
     = Next 4 0x1000 (machine [20, 0x10, 0, 0] [VALUE_NONE])
   \<and> step ext 0 0x1000 (machine [20, 0x10, 0, 0] [VALUE_INTEGER 0])
     = Next 0x10 0x1000 (machine [20, 0x10, 0, 0] [VALUE_INTEGER 0])
   \<and> \<not> VALUE_IS_BOOLEAN VALUE_NONE \<and> \<not> VALUE_IS_BOOLEAN (VALUE_INTEGER 0)
   \<and> VALUE_INTEGER 0 \<noteq> VALUE_NONE"
  by (simp add: step_def opcode_defs op_JumpNotCond_def mem_defs sample_defs READ_U16_def
      VALUE_IS_BOOLEAN_def VALUE_AS_BOOLEAN_def VALUE_ASSUME_NOT_BOOL_TO_BOOL_def
      VALUE_IS_NONE_def VALUE_NONE_def VALUE_INTEGER_def mask_defs)

section \<open>ConstI8Int\<close>

lemma step_ConstI8Int:
  "insts vm pc = CodeConstI8Int \<Longrightarrow> step ext pc stack vm = op_ConstI8Int pc stack vm"
  by (simp add: step_def opcode_defs)

text \<open>The payload \<open>ConstI8Int\<close> stores is the byte read as unsigned, 0 to 255, for every
  byte: it is never negative.\<close>

lemma ConstI8Int_payload:
  "op_ConstI8Int pc stack vm = Next pc' stack' vm' \<Longrightarrow>
   sint (VALUE_AS_INTEGER (stack_get vm' stack (unat (pc_get vm pc 2)))) = uint (pc_get vm pc 1)"
proof -
  assume "op_ConstI8Int pc stack vm = Next pc' stack' vm'"
  then have "stack_get vm' stack (unat (pc_get vm pc 2)) = VALUE_INTEGER (ucast (pc_get vm pc 1))"
    by (auto simp add: op_ConstI8Int_def stack_get_def stack_set_def)
  moreover have "sint (ucast b :: 32 word) = uint b" for b :: "8 word"
  proof -
    have "uint b < 2 ^ 8"
      using unsigned_less [of b] by simp
    then have hi: "uint b < 2 ^ 31"
      by simp
    have lo: "- (2 ^ 31) \<le> uint b"
      by (rule order_trans [of _ 0]) simp_all
    from lo hi have "- (2 ^ 31) \<le> uint b \<and> uint b < 2 ^ 31"
      by (rule conjI)
    then have "signed_take_bit 31 (uint b) = uint b"
      by (simp only: signed_take_bit_int_eq_self_iff)
    then show ?thesis
      by (simp add: signed_ucast_eq)
  qed
  ultimately show ?thesis
    by (simp add: VALUE_AS_INTEGER_VALUE_INTEGER)
qed

text \<open>
  C3 (the code departs from the claim). \<open>ConstI8Int\<close> with the immediate \<open>0x80\<close> and
  destination register 0 stores \<open>VALUE_INTEGER 128\<close>: the payload reads back as 128, and
  the stored word is not the integer-tagged \<open>-128\<close> (tag over the payload \<open>0xffffff80\<close>)
  of the claim. \<open>ConstI8\<close> beside it casts the same byte through \<open>int8_t\<close>.
\<close>

theorem ConstI8Int_0x80_loads_128:
  "step ext 0 0x1000 (machine [2, 0x80, 0] [])
     = Next 3 0x1000 (stack_set (machine [2, 0x80, 0] []) 0x1000 0 (VALUE_INTEGER 128))
   \<and> sint (VALUE_AS_INTEGER (VALUE_INTEGER 128)) = 128
   \<and> VALUE_INTEGER 128 \<noteq> INTEGER_MASK OR 0xffffff80"
  by (simp add: step_def opcode_defs op_ConstI8Int_def mem_defs sample_defs VALUE_INTEGER_def
      VALUE_AS_INTEGER_def mask_defs)

section \<open>AddInt and SubInt\<close>

lemma step_AddInt: "insts vm pc = CodeAddInt \<Longrightarrow> step ext pc stack vm = op_AddInt pc stack vm"
  by (simp add: step_def opcode_defs)

lemma step_SubInt: "insts vm pc = CodeSubInt \<Longrightarrow> step ext pc stack vm = op_SubInt pc stack vm"
  by (simp add: step_def opcode_defs)

text \<open>Both always hand on to the next instruction, and the payload of the stored word is
  the wrapped sum (difference) of the operands' payloads.\<close>

lemma AddInt_payload:
  "op_AddInt pc stack vm = Next pc' stack' vm' \<Longrightarrow>
   pc' = pc + 4 \<and> stack' = stack
   \<and> VALUE_AS_INTEGER (stack_get vm' stack (unat (pc_get vm pc 3)))
       = VALUE_AS_INTEGER (stack_get vm stack (unat (pc_get vm pc 1)))
         + VALUE_AS_INTEGER (stack_get vm stack (unat (pc_get vm pc 2)))"
  by (auto simp add: op_AddInt_def Let_def VALUE_AS_INTEGER_VALUE_INTEGER stack_get_def
      stack_set_def)

lemma AddInt_continues: "\<exists>vm'. op_AddInt pc stack vm = Next (pc + 4) stack vm'"
  by (simp add: op_AddInt_def Let_def)

lemma SubInt_payload:
  "op_SubInt pc stack vm = Next pc' stack' vm' \<Longrightarrow>
   pc' = pc + 4 \<and> stack' = stack
   \<and> VALUE_AS_INTEGER (stack_get vm' stack (unat (pc_get vm pc 3)))
       = VALUE_AS_INTEGER (stack_get vm stack (unat (pc_get vm pc 1)))
         - VALUE_AS_INTEGER (stack_get vm stack (unat (pc_get vm pc 2)))"
  by (auto simp add: op_SubInt_def Let_def VALUE_AS_INTEGER_VALUE_INTEGER stack_get_def
      stack_set_def)

lemma SubInt_continues: "\<exists>vm'. op_SubInt pc stack vm = Next (pc + 4) stack vm'"
  by (simp add: op_SubInt_def Let_def)

text \<open>
  C10 (the code departs from the claim). \<open>SubInt\<close> on the integers 0 and 1, and \<open>AddInt\<close>
  on the integers \<open>-1\<close> and 0 (all three operands integer-tagged), store the word of 64
  ones: its low 32 bits are the right payload \<open>-1\<close>, but it is not integer-tagged and it
  passes \<open>VALUE_IS_POINTER\<close>. The claim has the result integer-tagged for all operands.
\<close>

theorem SubInt_zero_minus_one_is_pointer:
  "step ext 0 0x1000 (machine [82, 0, 1, 2] [VALUE_INTEGER 0, VALUE_INTEGER 1])
     = Next 4 0x1000
         (stack_set (machine [82, 0, 1, 2] [VALUE_INTEGER 0, VALUE_INTEGER 1]) 0x1000 2 (- 1))
   \<and> step ext 0 0x1000 (machine [81, 0, 1, 2] [INTEGER_MASK OR 0xffffffff, VALUE_INTEGER 0])
     = Next 4 0x1000
         (stack_set (machine [81, 0, 1, 2] [INTEGER_MASK OR 0xffffffff, VALUE_INTEGER 0])
            0x1000 2 (- 1))
   \<and> isInteger (VALUE_INTEGER 0) \<and> isInteger (VALUE_INTEGER 1)
   \<and> isInteger (INTEGER_MASK OR 0xffffffff)
   \<and> VALUE_AS_INTEGER (- 1) = - 1 \<and> VALUE_IS_POINTER (- 1) \<and> \<not> isInteger (- 1)"
  by (simp add: step_def opcode_defs op_SubInt_def op_AddInt_def mem_defs sample_defs
      VALUE_INTEGER_def VALUE_AS_INTEGER_def VALUE_IS_POINTER_def isInteger_def mask_defs)

section \<open>CallFuncIC: the frame check\<close>

lemma step_CallFuncIC:
  "insts vm pc = CodeCallFuncIC \<Longrightarrow> step ext pc stack vm = op_CallFuncIC pc stack vm"
  by (simp add: step_def opcode_defs)

text \<open>Whenever the end of the new frame reaches \<open>stackEndPtr\<close> the handler ends in
  \<open>zFatal()\<close>; no result code is returned.\<close>

lemma CallFuncIC_no_room:
  "insts vm pc = CodeCallFuncIC \<Longrightarrow>
   stackEndPtr vm \<le> slot (slot stack (unat (pc_get vm pc 1))) (unat (pc_get vm pc 4)) \<Longrightarrow>
   step ext pc stack vm = Fatal"
  by (simp add: step_def opcode_defs op_CallFuncIC_def Let_def)

text \<open>
  C6 (the code departs from the claim). \<open>CallFuncIC\<close> with \<open>startLocal = 1\<close> and
  \<open>numLocals = 1\<close> on a frame at \<open>0x1000\<close> with \<open>stackEndPtr = 0x1008\<close>: the new frame
  would end at \<open>0x1010\<close>. \<open>execBytecode\<close> ends in \<open>zFatal()\<close>; it does not return
  \<open>RES_CODE_PANIC\<close> (nor any other result code) to its caller, as the claim has it.
\<close>

theorem CallFuncIC_overflow_is_fatal:
  "execBytecode ext (Suc n)
     ((machine [29, 1, 0, 1, 1, 0x40, 0, 0, 0, 0, 0] [])\<lparr>stackEndPtr := 0x1008\<rparr>) = Some Fatal"
  by (simp add: execBytecode_def step_def opcode_defs op_CallFuncIC_def mem_defs sample_defs)


section \<open>release and retain\<close>

text \<open>
  C7. For a pointer value, \<open>release\<close> takes one from the object's \<open>rc\<close> (and one from
  \<open>vm->refCounts\<close> when \<open>TRACK_GLOBAL_RC\<close> is on) and hands the object to \<open>zFreeObject\<close>
  exactly when the new \<open>rc\<close> is 0; \<open>retain\<close> adds one to \<open>rc\<close> (and to \<open>vm->refCounts\<close>
  when tracking). For a value that is no pointer both return the VM, heap included, as
  it was. The counters are 32 and 64 bits wide and wrap.
\<close>

theorem release_retain_reference_counts:
  "(VALUE_IS_POINTER v \<longrightarrow>
      release ext vm v =
        (let obj = VALUE_AS_HEAPOBJECT v;
             dec = vm\<lparr>heap := (heap vm)(obj := (heap vm obj)\<lparr>rc := rc (heap vm obj) - 1\<rparr>),
                      refCounts := (if TRACK_GLOBAL_RC ext then refCounts vm - 1 else refCounts vm)\<rparr>
         in if rc (heap vm obj) - 1 = 0 then zFreeObject ext dec obj else dec)
      \<and> retain ext vm v =
        (let obj = VALUE_AS_HEAPOBJECT v
         in vm\<lparr>heap := (heap vm)(obj := (heap vm obj)\<lparr>rc := rc (heap vm obj) + 1\<rparr>),
               refCounts := (if TRACK_GLOBAL_RC ext then refCounts vm + 1 else refCounts vm)\<rparr>))
   \<and> (\<not> VALUE_IS_POINTER v \<longrightarrow> release ext vm v = vm \<and> retain ext vm v = vm)"
  by (simp add: release_def retain_def Let_def)

text \<open>An object with \<open>rc = 2\<close> is released to \<open>rc = 1\<close> and kept; with \<open>rc = 1\<close> it is
  released to 0 and freed (the sample host poisons its type id); retained it goes to 3;
  the global count follows; \<open>true\<close> changes nothing.\<close>

theorem release_retain_reference_counts_witness:
  "VALUE_IS_POINTER (POINTER_MASK OR 0x100)
   \<and> heap (release host0 (vm0\<lparr>refCounts := 5, heap := (heap vm0)(0x100 := \<lparr>typeId = 9, rc = 2\<rparr>)\<rparr>)
        (POINTER_MASK OR 0x100)) 0x100 = \<lparr>typeId = 9, rc = 1\<rparr>
   \<and> refCounts (release host0 (vm0\<lparr>refCounts := 5, heap := (heap vm0)(0x100 := \<lparr>typeId = 9, rc = 2\<rparr>)\<rparr>)
        (POINTER_MASK OR 0x100)) = 4
   \<and> heap (release host0 (vm0\<lparr>refCounts := 5, heap := (heap vm0)(0x100 := \<lparr>typeId = 9, rc = 1\<rparr>)\<rparr>)
        (POINTER_MASK OR 0x100)) 0x100 = \<lparr>typeId = - 1, rc = 0\<rparr>
   \<and> heap (retain host0 (vm0\<lparr>refCounts := 5, heap := (heap vm0)(0x100 := \<lparr>typeId = 9, rc = 2\<rparr>)\<rparr>)
        (POINTER_MASK OR 0x100)) 0x100 = \<lparr>typeId = 9, rc = 3\<rparr>
   \<and> refCounts (retain host0 (vm0\<lparr>refCounts := 5, heap := (heap vm0)(0x100 := \<lparr>typeId = 9, rc = 2\<rparr>)\<rparr>)
        (POINTER_MASK OR 0x100)) = 6
   \<and> \<not> VALUE_IS_POINTER VALUE_TRUE
   \<and> release host0 vm0 VALUE_TRUE = vm0 \<and> retain host0 vm0 VALUE_TRUE = vm0"
proof -
  have p: "VALUE_IS_POINTER (POINTER_MASK OR 0x100)"
    by (simp add: VALUE_IS_POINTER_def mask_defs)
  have a: "VALUE_AS_HEAPOBJECT (POINTER_MASK OR 0x100) = 0x100"
    by (simp add: VALUE_AS_HEAPOBJECT_def mask_defs)
  have t: "\<not> VALUE_IS_POINTER VALUE_TRUE"
    by (simp add: VALUE_IS_POINTER_def VALUE_TRUE_def mask_defs)
  note r2 = release_retain_reference_counts
    [of "POINTER_MASK OR 0x100" host0
        "vm0\<lparr>refCounts := 5, heap := (heap vm0)(0x100 := \<lparr>typeId = 9, rc = 2\<rparr>)\<rparr>"]
  note r1 = release_retain_reference_counts
    [of "POINTER_MASK OR 0x100" host0
        "vm0\<lparr>refCounts := 5, heap := (heap vm0)(0x100 := \<lparr>typeId = 9, rc = 1\<rparr>)\<rparr>"]
  note r0 = release_retain_reference_counts [of VALUE_TRUE host0 vm0]
  show ?thesis
    using p t r2 r1 r0 by (simp add: a Let_def host0_def)
qed

section \<open>Ret1\<close>

lemma flag_bit: "(b AND (if (0x1 :: int) > 0 then 1 else 0) \<noteq> 0) = bit b 0" for b :: "8 word"
  by (simp add: and_one_eq bit_0 odd_iff_mod_2_eq_one)

lemma step_Ret1: "insts vm pc = CodeRet1 \<Longrightarrow> step ext pc stack vm = op_Ret1 ext pc stack vm"
  by (simp add: step_def opcode_defs)

text \<open>
  C4. \<open>Ret1\<close> with a requested count of 1 or 0 in byte 0 of slot 1. The value in slot 0
  is kept when the count is 1 and released when it is 0; \<open>pc\<close> is then loaded from slot 2
  and \<open>stack\<close> from slot 3. With bit 0 of the flags byte (byte 1 of slot 1) clear the loop
  dispatches the instruction at the restored \<open>pc\<close>; with the bit set \<open>execBytecode\<close>
  returns \<open>RES_CODE_SUCCESS\<close>. (Any other count ends in \<open>zFatal()\<close>.)
\<close>

theorem Ret1_pops_frame:
  "insts vm pc = CodeRet1 \<Longrightarrow>
   byte0 (stack_get vm stack 1) = 1 \<or> byte0 (stack_get vm stack 1) = 0 \<Longrightarrow>
   (let vm1 = (if byte0 (stack_get vm stack 1) = 1 then vm
               else release ext vm (stack_get vm stack 0));
        pc1 = stack_get vm1 stack 2;
        stack1 = stack_get vm1 stack 3
    in if bit (byte1 (stack_get vm stack 1)) 0
       then step ext pc stack vm = Return RES_CODE_SUCCESS pc1 stack1 vm1
            \<and> run ext (Suc n) pc stack vm = Some (Return RES_CODE_SUCCESS pc1 stack1 vm1)
       else step ext pc stack vm = Next pc1 stack1 vm1
            \<and> run ext (Suc n) pc stack vm = run ext n pc1 stack1 vm1)"
  using flag_bit [of "byte1 (stack_get vm stack 1)"]
  by (auto simp add: step_Ret1 op_Ret1_def ret_frame_def Let_def)

text \<open>A frame asking for one value, flag clear: dispatch goes on at \<open>0x40\<close> in the frame
  at \<open>0xf00\<close>, nothing else changes. A frame asking for none, flag set, with a pointer in
  slot 0: the object's \<open>rc\<close> goes from 2 to 1 and the loop returns success.\<close>

theorem Ret1_pops_frame_witness:
  "insts (machine [31] [VALUE_TRUE, 1, 0x40, 0xf00]) 0 = CodeRet1
   \<and> byte0 (stack_get (machine [31] [VALUE_TRUE, 1, 0x40, 0xf00]) 0x1000 1) = 1
   \<and> step host0 0 0x1000 (machine [31] [VALUE_TRUE, 1, 0x40, 0xf00])
       = Next 0x40 0xf00 (machine [31] [VALUE_TRUE, 1, 0x40, 0xf00])
   \<and> insts ((machine [31] [POINTER_MASK OR 0x100, 0x100, 0x40, 0xf00])
               \<lparr>heap := (heap vm0)(0x100 := \<lparr>typeId = 9, rc = 2\<rparr>)\<rparr>) 0 = CodeRet1
   \<and> byte0 (stack_get ((machine [31] [POINTER_MASK OR 0x100, 0x100, 0x40, 0xf00])
               \<lparr>heap := (heap vm0)(0x100 := \<lparr>typeId = 9, rc = 2\<rparr>)\<rparr>) 0x1000 1) = 0
   \<and> run host0 (Suc 0) 0 0x1000
         ((machine [31] [POINTER_MASK OR 0x100, 0x100, 0x40, 0xf00])
            \<lparr>heap := (heap vm0)(0x100 := \<lparr>typeId = 9, rc = 2\<rparr>)\<rparr>)
       = Some (Return RES_CODE_SUCCESS 0x40 0xf00
           ((machine [31] [POINTER_MASK OR 0x100, 0x100, 0x40, 0xf00])
              \<lparr>heap := (heap vm0)(0x100 := \<lparr>typeId = 9, rc = 1\<rparr>), refCounts := - 1\<rparr>))"
proof -
  let ?m1 = "machine [31] [VALUE_TRUE, 1, 0x40, 0xf00]"
  let ?m2 = "(machine [31] [POINTER_MASK OR 0x100, 0x100, 0x40, 0xf00])
               \<lparr>heap := (heap vm0)(0x100 := \<lparr>typeId = 9, rc = 2\<rparr>)\<rparr>"
  have i1: "insts ?m1 0 = CodeRet1"
    by (simp add: sample_defs opcode_defs)
  have c1: "byte0 (stack_get ?m1 0x1000 1) = 1"
    by (simp add: sample_defs mem_defs byte0_def)
  have i2: "insts ?m2 0 = CodeRet1"
    by (simp add: sample_defs opcode_defs)
  have c2: "byte0 (stack_get ?m2 0x1000 1) = 0"
    by (simp add: sample_defs mem_defs byte0_def)
  have r: "release host0 ?m2 (POINTER_MASK OR 0x100)
             = (machine [31] [POINTER_MASK OR 0x100, 0x100, 0x40, 0xf00])
                 \<lparr>heap := (heap vm0)(0x100 := \<lparr>typeId = 9, rc = 1\<rparr>), refCounts := - 1\<rparr>"
    by (simp add: release_def VALUE_IS_POINTER_def VALUE_AS_HEAPOBJECT_def mask_defs host0_def
        sample_defs Let_def)
  from Ret1_pops_frame [where vm = ?m1 and pc = 0 and stack = "0x1000" and ext = host0 and n = 0] i1 c1
  have s1: "step host0 0 0x1000 ?m1 = Next 0x40 0xf00 ?m1"
    by (simp add: Let_def sample_defs mem_defs byte1_def)
  have g2: "stack_get ?m2 0x1000 0 = POINTER_MASK OR 0x100"
    by (simp add: sample_defs mem_defs)
  from Ret1_pops_frame [where vm = ?m2 and pc = 0 and stack = "0x1000" and ext = host0 and n = 0] i2 c2
  have s2: "run host0 (Suc 0) 0 0x1000 ?m2
       = Some (Return RES_CODE_SUCCESS 0x40 0xf00
           ((machine [31] [POINTER_MASK OR 0x100, 0x100, 0x40, 0xf00])
              \<lparr>heap := (heap vm0)(0x100 := \<lparr>typeId = 9, rc = 1\<rparr>), refCounts := - 1\<rparr>))"
    unfolding g2 r
    by (simp add: Let_def sample_defs mem_defs byte1_def)
  show ?thesis
    using i1 c1 s1 i2 c2 s2 by simp
qed


section \<open>CallFuncIC: entering the callee\<close>

text \<open>Byte stores into a slot: the byte written reads back, the other bytes stay.\<close>

lemma byte0_set_byte0: "byte0 (set_byte0 v b) = b"
proof -
  have m: "(0xff :: 64 word) = mask 8" by (simp add: mask_eq_exp_minus_1)
  show ?thesis unfolding byte0_def set_byte0_def m
    by (rule bit_word_eqI) (auto simp add: bit_simps)
qed

lemma byte1_set_byte1: "byte1 (set_byte1 v b) = b"
proof -
  have m: "(0xff00 :: 64 word) = push_bit 8 (mask 8)" by (simp add: mask_eq_exp_minus_1)
  show ?thesis unfolding byte1_def set_byte1_def m
    by (rule bit_word_eqI) (auto simp add: bit_simps)
qed

lemma byte0_set_byte1: "byte0 (set_byte1 v b) = byte0 v"
proof -
  have m: "(0xff00 :: 64 word) = push_bit 8 (mask 8)" by (simp add: mask_eq_exp_minus_1)
  show ?thesis unfolding byte0_def set_byte1_def m
    by (rule bit_word_eqI) (auto simp add: bit_simps)
qed

lemma upper_bytes_kept: "drop_bit 16 (set_byte1 (set_byte0 v b) c) = drop_bit 16 v"
proof -
  have m: "(0xff00 :: 64 word) = push_bit 8 (mask 8)" by (simp add: mask_eq_exp_minus_1)
  have m0: "(0xff :: 64 word) = mask 8" by (simp add: mask_eq_exp_minus_1)
  show ?thesis unfolding set_byte0_def set_byte1_def m m0
    by (rule bit_word_eqI) (auto simp add: bit_simps dest: bit_imp_le_length)
qed

lemma slot_distinct:
  "slot s (Suc 0) \<noteq> slot s 2" "slot s (Suc 0) \<noteq> slot s 3" "slot s 2 \<noteq> slot s 3"
  "slot s 2 \<noteq> slot s (Suc 0)" "slot s 3 \<noteq> slot s (Suc 0)" "slot s 3 \<noteq> slot s 2"
  by (simp_all add: slot_def)

text \<open>
  The entry half of C5 holds. \<open>CallFuncIC\<close> whose new frame fits below \<open>stackEndPtr\<close>: the
  new frame starts \<open>startLocal\<close> slots above the caller's. In it, byte 0 of slot 1 gets
  the requested return count \<open>pc[3]\<close>, byte 1 (the flags) gets 0, the other six bytes of
  slot 1 stay, slot 2 gets \<open>pc + 11\<close> and slot 3 the caller's frame pointer; nothing else
  is stored. Dispatch goes on at the 48-bit entry address \<open>READ_U48(5)\<close> with \<open>stack\<close> at
  the new frame. A \<open>Ret1\<close> executed on that very state (requested count 1) hands control
  to \<open>pc + 11\<close> in the caller's frame. What a callee does to slot 2 before its \<open>Ret1\<close> is
  another matter, taken up below.
\<close>

lemma CallFuncIC_enters_frame:
  "insts vm pc = CodeCallFuncIC \<Longrightarrow>
   slot (slot stack (unat (pc_get vm pc 1))) (unat (pc_get vm pc 4)) < stackEndPtr vm \<Longrightarrow>
   (let frame = slot stack (unat (pc_get vm pc 1));
        vm' = vm\<lparr>slots := (slots vm)
                 (slot frame 1 := set_byte1 (set_byte0 (stack_get vm frame 1) (pc_get vm pc 3)) 0,
                  slot frame 2 := pc + 11,
                  slot frame 3 := stack)\<rparr>
    in step ext pc stack vm = Next (READ_U48 vm pc 5) frame vm'
       \<and> byte0 (stack_get vm' frame 1) = pc_get vm pc 3
       \<and> byte1 (stack_get vm' frame 1) = 0
       \<and> drop_bit 16 (stack_get vm' frame 1) = drop_bit 16 (stack_get vm frame 1)
       \<and> stack_get vm' frame 2 = pc + 11
       \<and> stack_get vm' frame 3 = stack
       \<and> (pc_get vm pc 3 = 1 \<longrightarrow>
            (\<forall>pc2. insts vm' pc2 = CodeRet1 \<longrightarrow> step ext pc2 frame vm' = Next (pc + 11) stack vm')))"
proof -
  assume op: "insts vm pc = CodeCallFuncIC"
    and fits: "slot (slot stack (unat (pc_get vm pc 1))) (unat (pc_get vm pc 4)) < stackEndPtr vm"
  define frame where "frame = slot stack (unat (pc_get vm pc 1))"
  define vm' where "vm' = vm\<lparr>slots := (slots vm)
                 (slot frame 1 := set_byte1 (set_byte0 (stack_get vm frame 1) (pc_get vm pc 3)) 0,
                  slot frame 2 := pc + 11,
                  slot frame 3 := stack)\<rparr>"
  have s1: "stack_get vm' frame (Suc 0) = set_byte1 (set_byte0 (stack_get vm frame 1) (pc_get vm pc 3)) 0"
    by (simp add: vm'_def stack_get_def slot_distinct)
  have s2: "stack_get vm' frame 2 = pc + 11"
    by (simp add: vm'_def stack_get_def slot_distinct)
  have s3: "stack_get vm' frame 3 = stack"
    by (simp add: vm'_def stack_get_def slot_distinct)
  have st: "step ext pc stack vm = Next (READ_U48 vm pc 5) frame vm'"
    unfolding vm'_def frame_def
    using fits
    by (simp add: step_def opcode_defs op [unfolded opcode_defs] op_CallFuncIC_def Let_def
        stack_set_def stack_get_def READ_U48_def pc_get_def not_le)
  have ret: "step ext pc2 frame vm' = Next (pc + 11) stack vm'"
    if "pc_get vm pc 3 = 1" and "insts vm' pc2 = CodeRet1" for pc2
    using that
    by (simp add: step_Ret1 op_Ret1_def ret_frame_def Let_def s1 s2 s3 byte0_set_byte0
        byte0_set_byte1 byte1_set_byte1)
  show ?thesis
    unfolding Let_def frame_def [symmetric] vm'_def [symmetric]
    using st s2 s3 ret
    by (simp add: s1 byte0_set_byte0 byte0_set_byte1 byte1_set_byte1 upper_bytes_kept)
qed

text \<open>A call at address 0 from the frame at \<open>0x1000\<close> with \<open>startLocal = 1\<close>, one value
  requested and the callee (a lone \<open>Ret1\<close>) at address 12: the frame at \<open>0x1008\<close> gets
  count 1 and flags 0, return address 11 and caller frame \<open>0x1000\<close>; the \<open>Ret1\<close> goes back
  to address 11 in the frame at \<open>0x1000\<close>.\<close>

lemma CallFuncIC_enters_frame_witness:
  "insts (machine [29, 1, 0, 1, 1, 12, 0, 0, 0, 0, 0, 93, 31] []) 0 = CodeCallFuncIC
   \<and> slot (slot 0x1000 (unat (pc_get (machine [29, 1, 0, 1, 1, 12, 0, 0, 0, 0, 0, 93, 31] []) 0 1)))
         (unat (pc_get (machine [29, 1, 0, 1, 1, 12, 0, 0, 0, 0, 0, 93, 31] []) 0 4))
       < stackEndPtr (machine [29, 1, 0, 1, 1, 12, 0, 0, 0, 0, 0, 93, 31] [])
   \<and> step host0 0 0x1000 (machine [29, 1, 0, 1, 1, 12, 0, 0, 0, 0, 0, 93, 31] [])
       = Next 12 0x1008
           ((machine [29, 1, 0, 1, 1, 12, 0, 0, 0, 0, 0, 93, 31] [])
              \<lparr>slots := (slots vm0)(0x1010 := 1, 0x1018 := 11, 0x1020 := 0x1000)\<rparr>)
   \<and> step host0 12 0x1008
         ((machine [29, 1, 0, 1, 1, 12, 0, 0, 0, 0, 0, 93, 31] [])
            \<lparr>slots := (slots vm0)(0x1010 := 1, 0x1018 := 11, 0x1020 := 0x1000)\<rparr>)
       = Next 11 0x1000
           ((machine [29, 1, 0, 1, 1, 12, 0, 0, 0, 0, 0, 93, 31] [])
              \<lparr>slots := (slots vm0)(0x1010 := 1, 0x1018 := 11, 0x1020 := 0x1000)\<rparr>)"
proof -
  let ?m = "machine [29, 1, 0, 1, 1, 12, 0, 0, 0, 0, 0, 93, 31] []"
  let ?m' = "?m\<lparr>slots := (slots vm0)(0x1010 := 1, 0x1018 := 11, 0x1020 := 0x1000)\<rparr>"
  have i: "insts ?m 0 = CodeCallFuncIC"
    by (simp add: sample_defs opcode_defs)
  have f: "slot (slot 0x1000 (unat (pc_get ?m 0 1))) (unat (pc_get ?m 0 4)) < stackEndPtr ?m"
    by (simp add: sample_defs mem_defs)
  have fr: "slot 0x1000 (unat (pc_get ?m 0 1)) = 0x1008"
    by (simp add: sample_defs mem_defs)
  have e: "READ_U48 ?m 0 5 = 12"
    by (simp add: READ_U48_def sample_defs mem_defs)
  have v: "?m\<lparr>slots := (slots ?m)
              (slot 0x1008 1 := set_byte1 (set_byte0 (stack_get ?m 0x1008 1) (pc_get ?m 0 3)) 0,
               slot 0x1008 2 := 0 + 11,
               slot 0x1008 3 := 0x1000)\<rparr> = ?m'"
    by (simp add: sample_defs mem_defs set_byte0_def set_byte1_def)
  have n: "pc_get ?m 0 3 = 1"
    by (simp add: sample_defs mem_defs)
  have r: "insts ?m' 12 = CodeRet1"
    by (simp add: sample_defs opcode_defs)
  note t = CallFuncIC_enters_frame [where vm = ?m and pc = 0 and stack = "0x1000" and ext = host0,
      OF i f, unfolded Let_def fr e v]
  from t have s1: "step host0 0 0x1000 ?m = Next 12 0x1008 ?m'"
    by simp
  from t n r have s2: "step host0 12 0x1008 ?m' = Next 11 0x1000 ?m'"
    by simp
  show ?thesis
    using i f s1 s2 by simp
qed


section \<open>CallFuncIC, SetInitN, Ret1: the saved return address\<close>

lemma step_SetInitN:
  "insts vm pc = CodeSetInitN \<Longrightarrow> step ext pc stack vm = op_SetInitN pc stack vm"
  by (simp add: step_def opcode_defs)

text \<open>\<open>SetInitN\<close> with one operand stores \<open>None\<close> into slot 2 of the current frame, whatever
  the operand byte is: the loop writes \<open>stack[i]\<close> for the operand's position \<open>i\<close>, and the
  operand bytes that \<open>pc += 2 + numLocals\<close> steps over are never read.\<close>

lemma SetInitN_one_local:
  "insts vm pc = CodeSetInitN \<Longrightarrow> pc_get vm pc 1 = 1 \<Longrightarrow>
   step ext pc stack vm = Next (pc + 3) stack (stack_set vm stack 2 VALUE_NONE)"
  by (simp add: step_SetInitN op_SetInitN_def Let_def upt_rec)

text \<open>
  C5 (the code departs from the claim). A call at address 0 (\<open>startLocal = 1\<close>, one value
  requested, callee at address 12) from the frame at \<open>0x1000\<close>; the callee is
  \<open>SetInitN 1\<close> followed by \<open>Ret1\<close>. The call builds the frame at \<open>0x1008\<close> as the claim
  says, with the return address 11 in slot 2. \<open>SetInitN\<close> then overwrites slot 2 with
  \<open>None\<close>, and \<open>Ret1\<close> hands control to the address \<open>0x7ffc000000000000\<close> in the caller's
  frame, not to 11: on return, slot 2 is not the \<open>pc\<close> stored at call time.
\<close>

theorem CallFuncIC_SetInitN_Ret1_loses_return_pc:
  "step ext 0 0x1000 (machine [29, 1, 0, 1, 1, 12, 0, 0, 0, 0, 0, 93, 54, 1, 4, 31] [])
     = Next 12 0x1008
         ((machine [29, 1, 0, 1, 1, 12, 0, 0, 0, 0, 0, 93, 54, 1, 4, 31] [])
            \<lparr>slots := (slots vm0)(0x1010 := 1, 0x1018 := 11, 0x1020 := 0x1000)\<rparr>)
   \<and> stack_get
         ((machine [29, 1, 0, 1, 1, 12, 0, 0, 0, 0, 0, 93, 54, 1, 4, 31] [])
            \<lparr>slots := (slots vm0)(0x1010 := 1, 0x1018 := 11, 0x1020 := 0x1000)\<rparr>)
         0x1008 2 = 0 + 11
   \<and> step ext 12 0x1008
         ((machine [29, 1, 0, 1, 1, 12, 0, 0, 0, 0, 0, 93, 54, 1, 4, 31] [])
            \<lparr>slots := (slots vm0)(0x1010 := 1, 0x1018 := 11, 0x1020 := 0x1000)\<rparr>)
     = Next 15 0x1008
         (stack_set
            ((machine [29, 1, 0, 1, 1, 12, 0, 0, 0, 0, 0, 93, 54, 1, 4, 31] [])
            \<lparr>slots := (slots vm0)(0x1010 := 1, 0x1018 := 11, 0x1020 := 0x1000)\<rparr>)
            0x1008 2 VALUE_NONE)
   \<and> step ext 15 0x1008
         (stack_set
            ((machine [29, 1, 0, 1, 1, 12, 0, 0, 0, 0, 0, 93, 54, 1, 4, 31] [])
            \<lparr>slots := (slots vm0)(0x1010 := 1, 0x1018 := 11, 0x1020 := 0x1000)\<rparr>)
            0x1008 2 VALUE_NONE)
     = Next VALUE_NONE 0x1000
         (stack_set
            ((machine [29, 1, 0, 1, 1, 12, 0, 0, 0, 0, 0, 93, 54, 1, 4, 31] [])
            \<lparr>slots := (slots vm0)(0x1010 := 1, 0x1018 := 11, 0x1020 := 0x1000)\<rparr>)
            0x1008 2 VALUE_NONE)
   \<and> VALUE_NONE = 0x7ffc000000000000 \<and> VALUE_NONE \<noteq> 0 + 11"
  by (simp add: step_def opcode_defs op_CallFuncIC_def op_SetInitN_def op_Ret1_def ret_frame_def
      Let_def mem_defs sample_defs READ_U48_def set_byte0_def set_byte1_def byte0_def byte1_def
      VALUE_NONE_def mask_defs upt_rec)

section \<open>CallObjNativeFuncIC: the inline cache\<close>

lemma step_CallObjNativeFuncIC:
  "insts vm pc = CodeCallObjNativeFuncIC \<Longrightarrow>
   step ext pc stack vm = op_CallObjNativeFuncIC ext pc stack vm"
  by (simp add: step_def opcode_defs)

lemma step_CallObjSym:
  "insts vm pc = CodeCallObjSym \<Longrightarrow> step ext pc stack vm = op_CallObjSym ext pc stack vm"
  by (simp add: step_def opcode_defs)

lemma getTypeId_callMethodPtr: "getTypeId (ext\<lparr>callMethodPtr := h\<rparr>) vm v = getTypeId ext vm v"
  by (simp add: getTypeId_def getPrimitiveTypeId_def)

text \<open>
  C8, as the claim states it, fails in one place: a matching type id does not always
  advance \<open>pc\<close> by 14. Here the cached type id is 1, the receiver is \<open>true\<close> (type id 1)
  and \<open>numRet\<close> is 2: the native method is called and the handler ends in \<open>zFatal()\<close>.
\<close>

theorem CallObjNativeFuncIC_hit_numRet_2_is_fatal:
  "getTypeId host0 (machine [26, 0, 0, 2, 0, 0, 0x77, 0, 0, 0, 0, 0, 1, 0] [0, 0, 0, VALUE_TRUE])
       (stack_get (machine [26, 0, 0, 2, 0, 0, 0x77, 0, 0, 0, 0, 0, 1, 0] [0, 0, 0, VALUE_TRUE])
          0x1000 3)
     = ucast (READ_U16 (machine [26, 0, 0, 2, 0, 0, 0x77, 0, 0, 0, 0, 0, 1, 0] [0, 0, 0, VALUE_TRUE]) 0 12)
   \<and> step host0 0 0x1000 (machine [26, 0, 0, 2, 0, 0, 0x77, 0, 0, 0, 0, 0, 1, 0] [0, 0, 0, VALUE_TRUE])
     = Fatal"
  by (simp add: step_def opcode_defs op_CallObjNativeFuncIC_def Let_def mem_defs sample_defs
      READ_U16_def READ_U48_def getTypeId_def getPrimitiveTypeId_def VALUE_IS_POINTER_def
      VALUE_IS_NUMBER_def VALUE_GET_TAG_def VALUE_TRUE_def mask_defs host0_def)

text \<open>
  C8, amended. \<open>CallObjNativeFuncIC\<close>; the receiver is \<open>stack[startLocal + numArgs + 4 - 1]\<close>, the
  cached type id the 16 bits at \<open>pc + 12\<close>. When the receiver's type id differs, the
  outcome is the same whatever the cached handler is (\<open>h\<close> below; it is not called): only
  the opcode byte at \<open>pc\<close> becomes \<open>CallObjSym\<close>, \<open>pc\<close> and \<open>stack\<close> stay, and the next
  dispatch at that \<open>pc\<close> runs the generic \<open>CallObjSym\<close> handler. When it matches, the
  native method at the 48-bit pointer \<open>READ_U48(6)\<close> is called with \<open>vm->curStack\<close> set to
  the frame, the receiver, the arguments at \<open>stack + startLocal + 4\<close> and \<open>numArgs\<close>; its
  result goes to \<open>stack[startLocal]\<close> when \<open>numRet\<close> is 1 and is dropped when it is 0,
  and in these two cases \<open>pc\<close> advances by 14. With any other \<open>numRet\<close> the handler ends
  in \<open>zFatal()\<close> after the call. (\<open>numRet\<close> is read after the call.)
\<close>

theorem CallObjNativeFuncIC_cache:
  "insts vm pc = CodeCallObjNativeFuncIC \<Longrightarrow>
   (let startLocal = pc_get vm pc 1;
        numArgs = pc_get vm pc 2;
        recv = stack_get vm stack (unat startLocal + unat numArgs + 4 - 1);
        hit = (getTypeId ext vm recv = ucast (READ_U16 vm pc 12));
        generic = pc_set vm pc 0 CodeCallObjSym
    in (\<not> hit \<longrightarrow>
          (\<forall>h. step (ext\<lparr>callMethodPtr := h\<rparr>) pc stack vm = Next pc stack generic)
          \<and> insts generic pc = CodeCallObjSym
          \<and> step ext pc stack generic = op_CallObjSym ext pc stack generic)
       \<and> (hit \<longrightarrow>
          (case callMethodPtr ext (READ_U48 vm pc 6) (vm\<lparr>curStack := stack\<rparr>) recv
                  (slot stack (unat startLocal + 4)) numArgs of
             (res, vm1) \<Rightarrow>
               (pc_get vm1 pc 3 = 1 \<longrightarrow>
                  step ext pc stack vm
                    = Next (pc + 14) stack (stack_set vm1 stack (unat startLocal) res))
               \<and> (pc_get vm1 pc 3 = 0 \<longrightarrow> step ext pc stack vm = Next (pc + 14) stack vm1)
               \<and> (pc_get vm1 pc 3 \<noteq> 1 \<and> pc_get vm1 pc 3 \<noteq> 0 \<longrightarrow>
                    step ext pc stack vm = Fatal))))"
proof -
  assume op: "insts vm pc = CodeCallObjNativeFuncIC"
  have g: "insts (pc_set vm pc 0 CodeCallObjSym) pc = CodeCallObjSym"
    by (simp add: pc_set_def)
  show ?thesis
    using op
    by (auto simp add: step_CallObjNativeFuncIC op_CallObjNativeFuncIC_def Let_def
        getTypeId_callMethodPtr g step_CallObjSym split: prod.splits)
qed

text \<open>A call site caching type id 1 with the receiver \<open>true\<close> (type id 1, the Boolean
  tag) in slot 3: the native method's result lands in slot 0 and \<open>pc\<close> is 14. The same
  site caching type id 7: the opcode byte becomes \<open>CallObjSym\<close> and \<open>pc\<close> stays 0. The
  first site with \<open>numRet = 2\<close>: fatal.\<close>

theorem CallObjNativeFuncIC_cache_witness:
  "insts (machine [26, 0, 0, 1, 0, 0, 0x77, 0, 0, 0, 0, 0, 1, 0] [0, 0, 0, VALUE_TRUE]) 0
     = CodeCallObjNativeFuncIC
   \<and> getTypeId host0 (machine [26, 0, 0, 1, 0, 0, 0x77, 0, 0, 0, 0, 0, 1, 0] [0, 0, 0, VALUE_TRUE])
         VALUE_TRUE = 1
   \<and> step host0 0 0x1000 (machine [26, 0, 0, 1, 0, 0, 0x77, 0, 0, 0, 0, 0, 1, 0] [0, 0, 0, VALUE_TRUE])
       = Next 14 0x1000
           (stack_set (machine [26, 0, 0, 1, 0, 0, 0x77, 0, 0, 0, 0, 0, 1, 0] [0, 0, 0, VALUE_TRUE])
              0x1000 0 TRUE_MASK)
   \<and> insts (machine [26, 0, 0, 1, 0, 0, 0x77, 0, 0, 0, 0, 0, 7, 0] [0, 0, 0, VALUE_TRUE]) 0
     = CodeCallObjNativeFuncIC
   \<and> step host0 0 0x1000 (machine [26, 0, 0, 1, 0, 0, 0x77, 0, 0, 0, 0, 0, 7, 0] [0, 0, 0, VALUE_TRUE])
       = Next 0 0x1000
           (pc_set (machine [26, 0, 0, 1, 0, 0, 0x77, 0, 0, 0, 0, 0, 7, 0] [0, 0, 0, VALUE_TRUE])
              0 0 CodeCallObjSym)
   \<and> insts (machine [26, 0, 0, 2, 0, 0, 0x77, 0, 0, 0, 0, 0, 1, 0] [0, 0, 0, VALUE_TRUE]) 0
     = CodeCallObjNativeFuncIC
   \<and> step host0 0 0x1000 (machine [26, 0, 0, 2, 0, 0, 0x77, 0, 0, 0, 0, 0, 1, 0] [0, 0, 0, VALUE_TRUE])
       = Fatal"
proof -
  let ?bad = "machine [26, 0, 0, 2, 0, 0, 0x77, 0, 0, 0, 0, 0, 1, 0] [0, 0, 0, VALUE_TRUE]"
  have i3: "insts ?bad 0 = CodeCallObjNativeFuncIC"
    by (simp add: sample_defs opcode_defs)
  have r3: "stack_get ?bad 0x1000 (unat (pc_get ?bad 0 1) + unat (pc_get ?bad 0 2) + 4 - 1) = VALUE_TRUE"
    by (simp add: sample_defs mem_defs)
  have c3: "ucast (READ_U16 ?bad 0 12) = (1 :: 32 word)"
    by (simp add: READ_U16_def sample_defs mem_defs)
  let ?hit = "machine [26, 0, 0, 1, 0, 0, 0x77, 0, 0, 0, 0, 0, 1, 0] [0, 0, 0, VALUE_TRUE]"
  let ?miss = "machine [26, 0, 0, 1, 0, 0, 0x77, 0, 0, 0, 0, 0, 7, 0] [0, 0, 0, VALUE_TRUE]"
  have i1: "insts ?hit 0 = CodeCallObjNativeFuncIC"
    by (simp add: sample_defs opcode_defs)
  have i2: "insts ?miss 0 = CodeCallObjNativeFuncIC"
    by (simp add: sample_defs opcode_defs)
  have ty: "getTypeId host0 vm VALUE_TRUE = 1" for vm
    by (simp add: getTypeId_def getPrimitiveTypeId_def VALUE_IS_POINTER_def VALUE_IS_NUMBER_def
        VALUE_GET_TAG_def VALUE_TRUE_def mask_defs)
  have r1: "stack_get ?hit 0x1000 (unat (pc_get ?hit 0 1) + unat (pc_get ?hit 0 2) + 4 - 1) = VALUE_TRUE"
    by (simp add: sample_defs mem_defs)
  have r2: "stack_get ?miss 0x1000 (unat (pc_get ?miss 0 1) + unat (pc_get ?miss 0 2) + 4 - 1) = VALUE_TRUE"
    by (simp add: sample_defs mem_defs)
  have c1: "ucast (READ_U16 ?hit 0 12) = (1 :: 32 word)"
    by (simp add: READ_U16_def sample_defs mem_defs)
  have c2: "ucast (READ_U16 ?miss 0 12) = (7 :: 32 word)"
    by (simp add: READ_U16_def sample_defs mem_defs)
  note h = CallObjNativeFuncIC_cache [where vm = ?hit and pc = 0 and stack = "0x1000" and ext = host0,
      OF i1, unfolded Let_def r1 ty c1]
  note m = CallObjNativeFuncIC_cache [where vm = ?miss and pc = 0 and stack = "0x1000" and ext = host0,
      OF i2, unfolded Let_def r2 ty c2]
  from h have s1: "step host0 0 0x1000 ?hit
       = Next 14 0x1000
           (stack_set (machine [26, 0, 0, 1, 0, 0, 0x77, 0, 0, 0, 0, 0, 1, 0] [0, 0, 0, VALUE_TRUE])
              0x1000 0 TRUE_MASK)"
    by (simp add: host0_def sample_defs mem_defs)
  from m have "\<forall>h. step (host0\<lparr>callMethodPtr := h\<rparr>) 0 0x1000 ?miss
       = Next 0 0x1000 (pc_set ?miss 0 0 CodeCallObjSym)"
    by simp
  from this [THEN spec, of "callMethodPtr host0"] have s2: "step host0 0 0x1000 ?miss
       = Next 0 0x1000
           (pc_set (machine [26, 0, 0, 1, 0, 0, 0x77, 0, 0, 0, 0, 0, 7, 0] [0, 0, 0, VALUE_TRUE])
              0 0 CodeCallObjSym)"
    by simp
  note b = CallObjNativeFuncIC_cache [where vm = ?bad and pc = 0 and stack = "0x1000" and ext = host0,
      OF i3, unfolded Let_def r3 ty c3]
  from b have s3: "step host0 0 0x1000 ?bad = Fatal"
    by (simp add: host0_def sample_defs mem_defs)
  show ?thesis
    using i1 i2 i3 ty s1 s2 s3 by simp
qed


section \<open>ForRangeInit\<close>

text \<open>Registers are bytes, so two registers share a slot only when they are the same
  register.\<close>

lemma slot_inj: "i < 256 \<Longrightarrow> j < 256 \<Longrightarrow> slot s i = slot s j \<longleftrightarrow> i = j"
proof -
  assume i: "i < 256" and j: "j < 256"
  have "slot s i = slot s j \<longleftrightarrow> (8 * word_of_nat i :: 64 word) = 8 * word_of_nat j"
    by (simp add: slot_def)
  also have "\<dots> \<longleftrightarrow> take_bit 64 (8 * i) = take_bit 64 (8 * j)"
    using word_of_nat_eq_iff [where ?'a = 64, of "8 * i" "8 * j"] by simp
  also have "\<dots> \<longleftrightarrow> 8 * i = 8 * j"
    using i j by (simp add: take_bit_nat_eq_self)
  finally show ?thesis by simp
qed

lemma slot_reg_inj:
  "slot s (unat (a :: 8 word)) = slot s (unat (b :: 8 word)) \<longleftrightarrow> unat a = unat b"
proof -
  have "unat a < 256" "unat b < 256"
    using unsigned_less [of a] unsigned_less [of b] by simp_all
  then show ?thesis
    by (simp add: slot_inj)
qed

text \<open>Sign and magnitude of a double: negation keeps the magnitude and flips the order
  key; a step that is negated when it compares below zero never compares below zero
  afterwards and, unless it is a NaN, compares equal to its magnitude.\<close>

lemma magnitude_mask: "f64_magnitude w = take_bit 63 w"
  by (simp add: f64_magnitude_def take_bit_eq_mask mask_eq_exp_minus_1)

lemma magnitude_neg: "f64_magnitude (f64_neg w) = f64_magnitude w"
  unfolding magnitude_mask f64_neg_def
  by (rule bit_word_eqI) (auto simp add: bit_simps bit_SIGN_MASK)

lemma sign_neg: "bit (f64_neg w) 63 \<longleftrightarrow> \<not> bit w 63"
  by (simp add: f64_neg_def bit_simps bit_SIGN_MASK)

lemma magnitude_idem: "f64_magnitude (f64_magnitude w) = f64_magnitude w"
  by (simp add: magnitude_mask)

lemma sign_magnitude: "\<not> bit (f64_magnitude w) 63"
  by (simp add: magnitude_mask bit_simps)

lemma nan_neg: "f64_is_nan (f64_neg w) = f64_is_nan w"
  by (simp add: f64_is_nan_def magnitude_neg)

lemma nan_magnitude: "f64_is_nan (f64_magnitude w) = f64_is_nan w"
  by (simp add: f64_is_nan_def magnitude_idem)

lemma key_zero: "f64_key f64_zero = 0" "\<not> f64_is_nan f64_zero"
  by (simp_all add: f64_key_def f64_zero_def f64_magnitude_def f64_is_nan_def)

lemma key_neg: "f64_key (f64_neg w) = - f64_key w"
  by (simp add: f64_key_def sign_neg magnitude_neg)

lemma key_magnitude: "f64_key (f64_magnitude w) = \<bar>f64_key w\<bar>"
  by (simp add: f64_key_def sign_magnitude magnitude_idem)

lemma lt_zero: "f64_lt w f64_zero \<longleftrightarrow> \<not> f64_is_nan w \<and> f64_key w < 0"
  by (simp add: f64_lt_def key_zero)

lemma step_normalized:
  "\<not> f64_lt (if f64_lt step0 f64_zero then f64_neg step0 else step0) f64_zero
   \<and> (f64_is_nan step0
        \<or> f64_eq (if f64_lt step0 f64_zero then f64_neg step0 else step0) (f64_magnitude step0))"
  by (simp add: lt_zero f64_eq_def nan_neg nan_magnitude key_neg key_magnitude)

lemma step_ForRangeInit:
  "insts vm pc = CodeForRangeInit \<Longrightarrow> step ext pc stack vm = op_ForRangeInit ext pc stack vm"
  by (simp add: step_def opcode_defs)

text \<open>The handler with its intermediate values named.\<close>

lemma ForRangeInit_aux:
  assumes op: "insts vm pc = CodeForRangeInit"
    and endReg_def: "endReg = unat (pc_get vm pc 2)"
    and stepReg_def: "stepReg = unat (pc_get vm pc 3)"
    and counterReg_def: "counterReg = unat (pc_get vm pc 4)"
    and userReg_def: "userReg = unat (pc_get vm pc 5)"
    and start_def: "start = toF64 ext vm (stack_get vm stack (unat (pc_get vm pc 1)))"
    and endv_def: "endv = toF64 ext vm (stack_get vm stack endReg)"
    and vm1_def: "vm1 = stack_set vm stack endReg endv"
    and step0_def: "step0 = toF64 ext vm1 (stack_get vm1 stack stepReg)"
    and step1_def: "step1 = (if f64_lt step0 f64_zero then f64_neg step0 else step0)"
    and vm2_def: "vm2 = stack_set vm1 stack stepReg step1"
    and offset_def: "offset = READ_U16 vm pc 6"
    and paired_def: "paired = (if f64_lt start endv then CodeForRange else CodeForRangeReverse)"
    and vm3_def: "vm3 = pc_set (stack_set (stack_set vm2 stack counterReg start) stack userReg start)
             pc (unat offset) paired"
  shows "\<not> f64_lt step1 f64_zero
       \<and> (f64_is_nan step0 \<or> f64_eq step1 (f64_magnitude step0))
       \<and> (f64_eq start endv \<longrightarrow>
             step ext pc stack vm = Next (pc + (ucast offset + 7)) stack vm2
             \<and> insts vm2 = insts vm
             \<and> slots vm2 = (slots vm)(slot stack endReg := endv, slot stack stepReg := step1))
       \<and> (\<not> f64_eq start endv \<longrightarrow>
             step ext pc stack vm = Next (pc + 8) stack vm3
             \<and> stack_get vm3 stack counterReg = start
             \<and> stack_get vm3 stack userReg = start
             \<and> (stepReg \<noteq> counterReg \<and> stepReg \<noteq> userReg \<longrightarrow>
                   stack_get vm3 stack stepReg = step1)
             \<and> pc_get vm3 pc (unat offset) = paired)"
proof -
  note defs = endReg_def stepReg_def counterReg_def userReg_def start_def endv_def vm1_def
    step0_def step1_def vm2_def offset_def paired_def vm3_def
  have pg: "pc_get (stack_set m s i v) p k = pc_get m p k" for m s i v p k
    by (simp add: pc_get_def stack_set_def)
  have ru: "READ_U16 (stack_set m s i v) p k = READ_U16 m p k" for m s i v p k
    by (simp add: READ_U16_def pg)
  have sg: "stack_get (stack_set m s i v) s j = (if slot s i = slot s j then v else stack_get m s j)"
    for m s i j v
    by (simp add: stack_get_def stack_set_def)
  have sp: "stack_get (pc_set m p k b) s j = stack_get m s j" for m p k b s j
    by (simp add: stack_get_def pc_set_def)
  have run: "op_ForRangeInit ext pc stack vm =
      (if f64_eq start endv then Next (pc + (ucast offset + 7)) stack vm2
       else Next (pc + 8) stack vm3)"
  proof -
    have a: "op_ForRangeInit ext pc stack vm =
       (let start = toF64 ext vm (stack_get vm stack (unat (pc_get vm pc 1)));
            endv = toF64 ext vm (stack_get vm stack (unat (pc_get vm pc 2)));
            vm1 = stack_set vm stack (unat (pc_get vm pc 2)) endv;
            step0 = toF64 ext vm1 (stack_get vm1 stack (unat (pc_get vm pc 3)));
            step1 = (if f64_lt step0 f64_zero then f64_neg step0 else step0);
            vm2 = stack_set vm1 stack (unat (pc_get vm pc 3)) step1
        in if f64_eq start endv then Next (pc + (ucast (READ_U16 vm pc 6) + 7)) stack vm2
           else
             let vm3 = stack_set vm2 stack (unat (pc_get vm pc 4)) start;
                 vm4 = stack_set vm3 stack (unat (pc_get vm pc 5)) start;
                 offset = READ_U16 vm pc 6;
                 vm5 = (if f64_lt start endv then pc_set vm4 pc (unat offset) CodeForRange
                        else pc_set vm4 pc (unat offset) CodeForRangeReverse)
             in Next (pc + 8) stack vm5)"
      unfolding op_ForRangeInit_def VALUE_NUMBER_def
      by (simp only: pg ru Let_def)
    show ?thesis
      unfolding a defs Let_def by simp
  qed
  have n: "\<not> f64_lt step1 f64_zero \<and> (f64_is_nan step0 \<or> f64_eq step1 (f64_magnitude step0))"
    unfolding step1_def by (rule step_normalized)
  have i2: "insts vm2 = insts vm"
    by (simp add: vm2_def vm1_def stack_set_def)
  have s2: "slots vm2 = (slots vm)(slot stack endReg := endv, slot stack stepReg := step1)"
    by (simp add: vm2_def vm1_def stack_set_def)
  have c: "stack_get vm3 stack counterReg = start"
    by (simp add: vm3_def sp sg)
  have u: "stack_get vm3 stack userReg = start"
    by (simp add: vm3_def sp sg)
  have r: "slot stack stepReg = slot stack counterReg \<longleftrightarrow> stepReg = counterReg"
    "slot stack stepReg = slot stack userReg \<longleftrightarrow> stepReg = userReg"
    "slot stack counterReg = slot stack stepReg \<longleftrightarrow> stepReg = counterReg"
    "slot stack userReg = slot stack stepReg \<longleftrightarrow> stepReg = userReg"
    unfolding stepReg_def counterReg_def userReg_def
    by (auto simp add: slot_reg_inj)
  have st: "stepReg \<noteq> counterReg \<and> stepReg \<noteq> userReg \<longrightarrow> stack_get vm3 stack stepReg = step1"
    by (simp add: vm3_def vm2_def sp sg r)
  have p: "pc_get vm3 pc (unat offset) = paired"
    by (simp add: vm3_def pc_get_def pc_set_def)
  show ?thesis
    unfolding step_ForRangeInit [OF op] run
    using n i2 s2 c u st p by simp
qed

lemmas f64_defs = f64_magnitude_def f64_is_nan_def f64_key_def f64_lt_def f64_eq_def f64_neg_def
  f64_zero_def

lemma sample_bits: "bit (0xbff0000000000000 :: 64 word) 63" "\<not> bit (0x4000000000000000 :: 64 word) 63"
  "\<not> bit (0 :: 64 word) 63" "\<not> bit (0x3ff0000000000000 :: 64 word) 63"
  by (simp_all add: bit_iff_odd drop_bit_eq_div)

text \<open>
  C9, as the claim states it, fails in one place: with \<open>start == end\<close> the handler does
  \<open>pc += READ_U16(6) + 7\<close>, not \<open>pc += READ_U16(6)\<close>. Here \<open>start\<close> and \<open>end\<close> are both
  \<open>0.0\<close> and the offset is \<open>0x20\<close>; the next \<open>pc\<close> is \<open>0x27\<close>.
\<close>

theorem ForRangeInit_equal_advances_offset_plus_7:
  "f64_eq (toF64 host0 (machine [84, 0, 1, 2, 3, 4, 0x20, 0] [0, 0, 0xbff0000000000000, 5, 6])
             (stack_get (machine [84, 0, 1, 2, 3, 4, 0x20, 0] [0, 0, 0xbff0000000000000, 5, 6]) 0x1000 0))
          (toF64 host0 (machine [84, 0, 1, 2, 3, 4, 0x20, 0] [0, 0, 0xbff0000000000000, 5, 6])
             (stack_get (machine [84, 0, 1, 2, 3, 4, 0x20, 0] [0, 0, 0xbff0000000000000, 5, 6]) 0x1000 1))
   \<and> READ_U16 (machine [84, 0, 1, 2, 3, 4, 0x20, 0] [0, 0, 0xbff0000000000000, 5, 6]) 0 6 = 0x20
   \<and> step host0 0 0x1000 (machine [84, 0, 1, 2, 3, 4, 0x20, 0] [0, 0, 0xbff0000000000000, 5, 6])
       = Next 0x27 0x1000
           (stack_set
              (stack_set (machine [84, 0, 1, 2, 3, 4, 0x20, 0] [0, 0, 0xbff0000000000000, 5, 6])
                 0x1000 1 0)
              0x1000 2 0x3ff0000000000000)
   \<and> (0x27 :: addr) \<noteq> 0 + 0x20"
  by (simp add: step_def opcode_defs op_ForRangeInit_def Let_def toF64_def VALUE_IS_NUMBER_def
      VALUE_AS_NUMBER_def VALUE_NUMBER_def mask_defs f64_defs mem_defs sample_defs READ_U16_def
      sample_bits)

text \<open>
  C9, amended. \<open>start\<close>, \<open>end\<close> and \<open>step\<close> are the registers' values through \<open>toF64\<close>
  (\<open>step\<close> is read after \<open>end\<close> has been stored back). The step is negated when it
  compares below zero: what is stored never compares below zero and, unless it is a NaN,
  equals the magnitude of the step. With \<open>start == end\<close> the next \<open>pc\<close> is
  \<open>pc + offset + 7\<close> (just past the 7-byte \<open>ForRange\<close> that closes the body at
  \<open>pc + offset\<close>), no bytecode byte changes, and the only stores are the converted \<open>end\<close>
  and the normalized step into their own registers: the counter and loop-variable
  registers are not stored to. Otherwise \<open>start\<close> is stored into the counter and the
  loop-variable register (the step register keeps the normalized step when it is neither
  of them), the opcode byte at \<open>pc + offset\<close> becomes \<open>ForRange\<close> when \<open>start < end\<close> and
  \<open>ForRangeReverse\<close> when not, and the next \<open>pc\<close> is \<open>pc + 8\<close>.
\<close>

theorem ForRangeInit_skips_or_arms_loop:
  "insts vm pc = CodeForRangeInit \<Longrightarrow>
   (let endReg = unat (pc_get vm pc 2);
        stepReg = unat (pc_get vm pc 3);
        counterReg = unat (pc_get vm pc 4);
        userReg = unat (pc_get vm pc 5);
        start = toF64 ext vm (stack_get vm stack (unat (pc_get vm pc 1)));
        endv = toF64 ext vm (stack_get vm stack endReg);
        vm1 = stack_set vm stack endReg endv;
        step0 = toF64 ext vm1 (stack_get vm1 stack stepReg);
        step1 = (if f64_lt step0 f64_zero then f64_neg step0 else step0);
        vm2 = stack_set vm1 stack stepReg step1;
        offset = READ_U16 vm pc 6;
        paired = (if f64_lt start endv then CodeForRange else CodeForRangeReverse);
        vm3 = pc_set (stack_set (stack_set vm2 stack counterReg start) stack userReg start)
                pc (unat offset) paired
    in \<not> f64_lt step1 f64_zero
       \<and> (f64_is_nan step0 \<or> f64_eq step1 (f64_magnitude step0))
       \<and> (f64_eq start endv \<longrightarrow>
             step ext pc stack vm = Next (pc + (ucast offset + 7)) stack vm2
             \<and> insts vm2 = insts vm
             \<and> slots vm2 = (slots vm)(slot stack endReg := endv, slot stack stepReg := step1))
       \<and> (\<not> f64_eq start endv \<longrightarrow>
             step ext pc stack vm = Next (pc + 8) stack vm3
             \<and> stack_get vm3 stack counterReg = start
             \<and> stack_get vm3 stack userReg = start
             \<and> (stepReg \<noteq> counterReg \<and> stepReg \<noteq> userReg \<longrightarrow>
                   stack_get vm3 stack stepReg = step1)
             \<and> pc_get vm3 pc (unat offset) = paired))"
  unfolding Let_def
  by (rule ForRangeInit_aux [OF _ refl refl refl refl refl refl refl refl refl refl refl refl refl])

text \<open>\<open>for 0.0 .. 0.0 step -1.0\<close>: skipped, \<open>pc\<close> goes from 0 to \<open>0x27\<close>, the step register
  holds \<open>1.0\<close>. \<open>for 0.0 .. 2.0 step -1.0\<close>: armed, the step register holds \<open>1.0\<close>, counter
  and loop variable hold \<open>0.0\<close>, the byte at \<open>0x20\<close> is \<open>ForRange\<close>, \<open>pc\<close> is 8.\<close>

theorem ForRangeInit_skips_or_arms_loop_witness:
  "insts (machine [84, 0, 1, 2, 3, 4, 0x20, 0] [0, 0, 0xbff0000000000000, 5, 6]) 0 = CodeForRangeInit
   \<and> step host0 0 0x1000 (machine [84, 0, 1, 2, 3, 4, 0x20, 0] [0, 0, 0xbff0000000000000, 5, 6])
       = Next 0x27 0x1000
           (stack_set
              (stack_set (machine [84, 0, 1, 2, 3, 4, 0x20, 0] [0, 0, 0xbff0000000000000, 5, 6])
                 0x1000 1 0)
              0x1000 2 0x3ff0000000000000)
   \<and> insts (machine [84, 0, 1, 2, 3, 4, 0x20, 0] [0, 0x4000000000000000, 0xbff0000000000000, 5, 6]) 0
       = CodeForRangeInit
   \<and> step host0 0 0x1000
         (machine [84, 0, 1, 2, 3, 4, 0x20, 0] [0, 0x4000000000000000, 0xbff0000000000000, 5, 6])
       = Next 8 0x1000
           (pc_set
              (stack_set
                 (stack_set
                    (stack_set
                       (stack_set
                          (machine [84, 0, 1, 2, 3, 4, 0x20, 0]
                             [0, 0x4000000000000000, 0xbff0000000000000, 5, 6])
                          0x1000 1 0x4000000000000000)
                       0x1000 2 0x3ff0000000000000)
                    0x1000 3 0)
                 0x1000 4 0)
              0 0x20 CodeForRange)"
proof -
  let ?mE = "machine [84, 0, 1, 2, 3, 4, 0x20, 0] [0, 0, 0xbff0000000000000, 5, 6]"
  let ?mU = "machine [84, 0, 1, 2, 3, 4, 0x20, 0] [0, 0x4000000000000000, 0xbff0000000000000, 5, 6]"
  have iE: "insts ?mE 0 = CodeForRangeInit"
    by (simp add: sample_defs opcode_defs)
  have iU: "insts ?mU 0 = CodeForRangeInit"
    by (simp add: sample_defs opcode_defs)
  have regs: "unat (pc_get (machine [84, 0, 1, 2, 3, 4, 0x20, 0] vs) 0 1) = 0"
    "unat (pc_get (machine [84, 0, 1, 2, 3, 4, 0x20, 0] vs) 0 2) = 1"
    "unat (pc_get (machine [84, 0, 1, 2, 3, 4, 0x20, 0] vs) 0 3) = 2"
    "unat (pc_get (machine [84, 0, 1, 2, 3, 4, 0x20, 0] vs) 0 4) = 3"
    "unat (pc_get (machine [84, 0, 1, 2, 3, 4, 0x20, 0] vs) 0 5) = 4"
    "READ_U16 (machine [84, 0, 1, 2, 3, 4, 0x20, 0] vs) 0 6 = 0x20" for vs
    by (simp_all add: machine_def vm0_def pc_get_def READ_U16_def)
  have num: "toF64 host0 vm 0 = 0" "toF64 host0 vm 0x4000000000000000 = 0x4000000000000000"
    "toF64 host0 vm 0xbff0000000000000 = 0xbff0000000000000" for vm
    by (simp_all add: toF64_def VALUE_IS_NUMBER_def VALUE_AS_NUMBER_def mask_defs)
  have gE: "stack_get ?mE 0x1000 0 = 0" "stack_get ?mE 0x1000 1 = 0"
    "stack_get (stack_set ?mE 0x1000 1 0) 0x1000 2 = 0xbff0000000000000"
    by (simp_all add: sample_defs mem_defs)
  have gU: "stack_get ?mU 0x1000 0 = 0" "stack_get ?mU 0x1000 1 = 0x4000000000000000"
    "stack_get (stack_set ?mU 0x1000 1 0x4000000000000000) 0x1000 2 = 0xbff0000000000000"
    by (simp_all add: sample_defs mem_defs)
  have cmp: "f64_lt 0xbff0000000000000 f64_zero" "f64_neg 0xbff0000000000000 = 0x3ff0000000000000"
    "f64_eq 0 0" "\<not> f64_eq 0 0x4000000000000000" "f64_lt 0 0x4000000000000000"
    by (simp_all add: f64_defs sample_bits mask_defs)
  note tE = ForRangeInit_skips_or_arms_loop
      [where vm = ?mE and pc = 0 and stack = "0x1000" and ext = host0, OF iE,
        unfolded Let_def regs gE num]
  note tU = ForRangeInit_skips_or_arms_loop
      [where vm = ?mU and pc = 0 and stack = "0x1000" and ext = host0, OF iU,
        unfolded Let_def regs gU num]
  have sE: "step host0 0 0x1000 ?mE
       = Next 0x27 0x1000 (stack_set (stack_set ?mE 0x1000 1 0) 0x1000 2 0x3ff0000000000000)"
    using tE cmp by simp
  have sU: "step host0 0 0x1000 ?mU
       = Next 8 0x1000
           (pc_set
              (stack_set
                 (stack_set
                    (stack_set (stack_set ?mU 0x1000 1 0x4000000000000000)
                       0x1000 2 0x3ff0000000000000)
                    0x1000 3 0)
                 0x1000 4 0)
              0 0x20 CodeForRange)"
    using tU cmp by simp
  show ?thesis
    using iE iU sE sU by simp
qed

end
